theory Spec2Isabelle
  imports Complex_Main "HOL-Library.AList"
begin

section \<open>JavaScript values used by the handlers\<close>

text \<open>
  Strings are byte strings; the identifiers, type codes and decimal numbers the
  handlers read are ASCII. Decimal rendering of a natural number is what a template
  literal or \<^verbatim>\<open>toString()\<close> gives for a non-negative integer.
\<close>

definition digit_char :: "nat \<Rightarrow> char" where
  "digit_char d = ''0123456789'' ! d"

fun natToString :: "nat \<Rightarrow> string" where
  "natToString n =
     (if n < 10 then [digit_char n] else natToString (n div 10) @ [digit_char (n mod 10)])"

declare natToString.simps [simp del]

definition digit_val :: "char \<Rightarrow> nat" where
  "digit_val c = of_char c - 48"

definition stringToNat :: "string \<Rightarrow> nat" where
  "stringToNat s = foldl (\<lambda>acc c. 10 * acc + digit_val c) 0 s"

text \<open>
  A JavaScript number: a finite double given by its exact value, or one of the three
  special values.
\<close>

datatype jsnum = Finite rat | NaN | PosInfinity | NegInfinity

fun fracDigits :: "nat \<Rightarrow> rat \<Rightarrow> string" where
  "fracDigits 0 r = []"
| "fracDigits (Suc k) r =
     (if r = 0 then []
      else let d = nat \<lfloor>r * 10\<rfloor> in digit_char d # fracDigits k (r * 10 - of_nat d))"

text \<open>
  \<^verbatim>\<open>Number.prototype.toString\<close>. The integer case is exact below \<open>10^21\<close>; the
  fractional case prints the decimal expansion, which is what JavaScript prints for a
  decimal of at most 15 significant digits (cent amounts, ratings and quantities sent
  as JSON).
\<close>

fun numToString :: "jsnum \<Rightarrow> string" where
  "numToString (Finite q) =
     (let a = \<bar>q\<bar>; ip = nat \<lfloor>a\<rfloor>; fr = a - of_nat ip
      in (if q < 0 then ''-'' else []) @ natToString ip @
         (if fr = 0 then [] else CHR ''.'' # fracDigits 17 fr))"
| "numToString NaN = ''NaN''"
| "numToString PosInfinity = ''Infinity''"
| "numToString NegInfinity = ''-Infinity''"

text \<open>Comparison of numbers: every comparison with \<open>NaN\<close> is false.\<close>

fun num_lt :: "jsnum \<Rightarrow> jsnum \<Rightarrow> bool" where
  "num_lt NaN _ = False"
| "num_lt _ NaN = False"
| "num_lt (Finite a) (Finite b) = (a < b)"
| "num_lt (Finite a) PosInfinity = True"
| "num_lt (Finite a) NegInfinity = False"
| "num_lt PosInfinity _ = False"
| "num_lt NegInfinity NegInfinity = False"
| "num_lt NegInfinity _ = True"

definition num_gt :: "jsnum \<Rightarrow> jsnum \<Rightarrow> bool" where
  "num_gt a b = num_lt b a"


text \<open>
  A value of a JSON request body. An object or array is kept as its \<^verbatim>\<open>ToString\<close>
  image, which is all \<^verbatim>\<open>parseFloat\<close> reads of it.
\<close>

datatype jsval =
    JUndefined
  | JNull
  | JBool bool
  | JNumber jsnum
  | JString string
  | JObject string


fun isNumber :: "jsval \<Rightarrow> bool" where
  "isNumber (JNumber _) = True"
| "isNumber _ = False"

fun toNumber :: "jsval \<Rightarrow> jsnum" where
  "toNumber (JNumber n) = n"
| "toNumber _ = NaN"

text \<open>\<^verbatim>\<open>a || b\<close> on optional strings: \<^verbatim>\<open>undefined\<close>, \<^verbatim>\<open>null\<close> and \<^verbatim>\<open>""\<close> are falsy.\<close>

fun str_truthy :: "string option \<Rightarrow> bool" where
  "str_truthy None = False"
| "str_truthy (Some s) = (s \<noteq> [])"

definition or_else :: "string option \<Rightarrow> string option \<Rightarrow> string option" where
  "or_else a b = (if str_truthy a then a else b)"

definition or_default :: "string option \<Rightarrow> string \<Rightarrow> string" where
  "or_default a d = (case a of Some s \<Rightarrow> (if s \<noteq> [] then s else d) | None \<Rightarrow> d)"

subsection \<open>parseFloat\<close>










section \<open>The store (MemStorage)\<close>

text \<open>
  A JavaScript \<^verbatim>\<open>Map\<close> keeps its entries in insertion order: it is an association
  list, \<^verbatim>\<open>set\<close> is \<^const>\<open>AList.update\<close> (replace in place, or append),
  \<^verbatim>\<open>get\<close> is \<^const>\<open>map_of\<close> and \<^verbatim>\<open>delete\<close> is \<^const>\<open>AList.delete\<close>.
  The \<^verbatim>\<open>Set\<close> of processed events is a list without repetition. Identifiers
  (\<^verbatim>\<open>randomUUID()\<close>) and the clock (\<^verbatim>\<open>new Date()\<close>, in milliseconds) are
  arguments. The order counter is a natural number: a double counts exactly up to
  \<open>2^53\<close>, far more orders than a process creates. The custom-order and contact
  collections, which no handler below reads, are left out.
\<close>

record insert_order =
  customerName :: string
  customerEmail :: string
  amount :: string
  paymentMethod :: string
  description :: string
  supplied_orderNumber :: "string option"

record order =
  order_customerName :: string
  order_customerEmail :: string
  order_amount :: string
  order_paymentMethod :: string
  order_description :: string
  order_id :: string
  orderNumber :: string
  rating :: "string option"
  order_createdAt :: int

record insert_cart_item =
  productFields :: "(string \<times> string) list"
  imageUrls :: "string list option"
  supplied_quantity :: "string option"

record cart_item =
  cart_productFields :: "(string \<times> string) list"
  cart_imageUrls :: "string list option"
  cart_id :: string
  quantity :: string
  cart_createdAt :: int

record insert_donation =
  donorName :: string
  donorEmail :: string
  donation_amount_in :: string
  message :: "string option"

record donation =
  donation_donorName :: string
  donation_donorEmail :: string
  donation_amount :: string
  donation_message :: "string option"
  donation_id :: string
  donation_createdAt :: int

record mem_storage =
  orders :: "(string \<times> order) list"
  cartItems :: "(string \<times> cart_item) list"
  donations :: "(string \<times> donation) list"
  processedEvents :: "string list"
  orderCounter :: nat

definition MemStorage_new :: mem_storage where
  "MemStorage_new =
     \<lparr>orders = [], cartItems = [], donations = [], processedEvents = [], orderCounter = 1000\<rparr>"

definition set_add :: "string \<Rightarrow> string list \<Rightarrow> string list" where
  "set_add x xs = (if x \<in> set xs then xs else xs @ [x])"

definition generateOrderNumber :: "mem_storage \<Rightarrow> mem_storage \<times> string" where
  "generateOrderNumber s =
     (let s' = s\<lparr>orderCounter := orderCounter s + 1\<rparr>
      in (s', ''ORD-'' @ natToString (orderCounter s')))"

definition getOrder :: "mem_storage \<Rightarrow> string \<Rightarrow> order option" where
  "getOrder s i = map_of (orders s) i"

definition getOrders :: "mem_storage \<Rightarrow> order list" where
  "getOrders s = sort_key (\<lambda>x. - order_createdAt x) (map snd (orders s))"

definition createOrder :: "mem_storage \<Rightarrow> insert_order \<Rightarrow> string \<Rightarrow> int \<Rightarrow> mem_storage \<times> order" where
  "createOrder s insertOrder uuid now =
     (let (s1, num) = generateOrderNumber s;
          ord = \<lparr>order_customerName = customerName insertOrder,
                 order_customerEmail = customerEmail insertOrder,
                 order_amount = amount insertOrder,
                 order_paymentMethod = paymentMethod insertOrder,
                 order_description = description insertOrder,
                 order_id = uuid,
                 orderNumber = num,
                 rating = None,
                 order_createdAt = now\<rparr>
      in (s1\<lparr>orders := AList.update uuid ord (orders s1)\<rparr>, ord))"

definition updateOrderRating :: "mem_storage \<Rightarrow> string \<Rightarrow> jsnum \<Rightarrow> mem_storage \<times> order option" where
  "updateOrderRating s i r =
     (case map_of (orders s) i of
        None \<Rightarrow> (s, None)
      | Some ord \<Rightarrow>
          (let updatedOrder = ord\<lparr>rating := Some (numToString r)\<rparr>
           in (s\<lparr>orders := AList.update i updatedOrder (orders s)\<rparr>, Some updatedOrder)))"

definition getCartItems :: "mem_storage \<Rightarrow> cart_item list" where
  "getCartItems s = sort_key (\<lambda>x. - cart_createdAt x) (map snd (cartItems s))"

definition getCartItem :: "mem_storage \<Rightarrow> string \<Rightarrow> cart_item option" where
  "getCartItem s i = map_of (cartItems s) i"

definition addCartItem :: "mem_storage \<Rightarrow> insert_cart_item \<Rightarrow> string \<Rightarrow> int \<Rightarrow> mem_storage \<times> cart_item" where
  "addCartItem s insertItem uuid now =
     (let item = \<lparr>cart_productFields = productFields insertItem,
                  cart_imageUrls = imageUrls insertItem,
                  cart_id = uuid,
                  quantity = ''1'',
                  cart_createdAt = now\<rparr>
      in (s\<lparr>cartItems := AList.update uuid item (cartItems s)\<rparr>, item))"

definition updateCartItemQuantity :: "mem_storage \<Rightarrow> string \<Rightarrow> jsnum \<Rightarrow> mem_storage \<times> cart_item option" where
  "updateCartItemQuantity s i q =
     (case map_of (cartItems s) i of
        None \<Rightarrow> (s, None)
      | Some item \<Rightarrow>
          (let updatedItem = item\<lparr>quantity := numToString q\<rparr>
           in (s\<lparr>cartItems := AList.update i updatedItem (cartItems s)\<rparr>, Some updatedItem)))"

definition removeCartItem :: "mem_storage \<Rightarrow> string \<Rightarrow> mem_storage \<times> bool" where
  "removeCartItem s i =
     (s\<lparr>cartItems := AList.delete i (cartItems s)\<rparr>, map_of (cartItems s) i \<noteq> None)"

definition clearCart :: "mem_storage \<Rightarrow> mem_storage" where
  "clearCart s = s\<lparr>cartItems := []\<rparr>"

definition createDonation :: "mem_storage \<Rightarrow> insert_donation \<Rightarrow> string \<Rightarrow> int \<Rightarrow> mem_storage \<times> donation" where
  "createDonation s insertDonation uuid now =
     (let d = \<lparr>donation_donorName = donorName insertDonation,
               donation_donorEmail = donorEmail insertDonation,
               donation_amount = donation_amount_in insertDonation,
               donation_message = message insertDonation,
               donation_id = uuid,
               donation_createdAt = now\<rparr>
      in (s\<lparr>donations := AList.update uuid d (donations s)\<rparr>, d))"

text \<open>The store's methods as operations, to speak of every state a store can reach.\<close>

datatype store_op =
    OpCreateOrder insert_order string int
  | OpUpdateOrderRating string jsnum
  | OpAddCartItem insert_cart_item string int
  | OpUpdateCartItemQuantity string jsnum
  | OpRemoveCartItem string
  | OpClearCart
  | OpCreateDonation insert_donation string int
  | OpAddProcessedEvent string

fun exec_op :: "store_op \<Rightarrow> mem_storage \<Rightarrow> mem_storage" where
  "exec_op (OpCreateOrder ins uuid now) s = fst (createOrder s ins uuid now)"
| "exec_op (OpUpdateOrderRating i r) s = fst (updateOrderRating s i r)"
| "exec_op (OpAddCartItem ins uuid now) s = fst (addCartItem s ins uuid now)"
| "exec_op (OpUpdateCartItemQuantity i q) s = fst (updateCartItemQuantity s i q)"
| "exec_op (OpRemoveCartItem i) s = fst (removeCartItem s i)"
| "exec_op OpClearCart s = clearCart s"
| "exec_op (OpCreateDonation ins uuid now) s = fst (createDonation s ins uuid now)"
| "exec_op (OpAddProcessedEvent e) s = s\<lparr>processedEvents := set_add e (processedEvents s)\<rparr>"

fun run_ops :: "store_op list \<Rightarrow> mem_storage \<Rightarrow> mem_storage" where
  "run_ops [] s = s"
| "run_ops (op # ops) s = run_ops ops (exec_op op s)"

text \<open>The order numbers a run of operations returns, in the order of the calls.\<close>

fun issued :: "store_op list \<Rightarrow> mem_storage \<Rightarrow> string list" where
  "issued [] s = []"
| "issued (op # ops) s =
     (case op of
        OpCreateOrder ins uuid now \<Rightarrow> [orderNumber (snd (createOrder s ins uuid now))]
      | _ \<Rightarrow> []) @ issued ops (exec_op op s)"

fun is_quantity_update :: "store_op \<Rightarrow> bool" where
  "is_quantity_update (OpUpdateCartItemQuantity _ _) = True"
| "is_quantity_update _ = False"

text \<open>The number an order number displays: the digits after \<^verbatim>\<open>ORD-\<close>.\<close>

definition orderNumberValue :: "string \<Rightarrow> nat" where
  "orderNumberValue s = stringToNat (drop 4 s)"

text \<open>
  What holds of the orders of every reachable store: no two carry the same order
  number, and each number was issued by the counter.
\<close>

definition order_numbers_ok :: "mem_storage \<Rightarrow> bool" where
  "order_numbers_ok s =
     (distinct (map (\<lambda>kv. orderNumber (snd kv)) (orders s)) \<and>
      list_all (\<lambda>kv. orderNumberValue (orderNumber (snd kv)) \<le> orderCounter s) (orders s))"

text \<open>Every cart entry is stored under its own identifier.\<close>

definition cart_keys_ok :: "mem_storage \<Rightarrow> bool" where
  "cart_keys_ok s = list_all (\<lambda>kv. cart_id (snd kv) = fst kv) (cartItems s)"

section \<open>The process: store, database, effects\<close>

text \<open>
  The handlers act on the store singleton and, when \<^verbatim>\<open>getDb()\<close> returns a handle,
  on the \<^verbatim>\<open>webhookEvents\<close> table, whose primary key is the event identifier:
  \<open>db\<close> is \<open>None\<close> without a database and holds the table's identifiers otherwise.
  \<open>trace\<close> lists, in the order they happen, the calls to the payment provider, the
  ledger marks, the records created and the emails; \<open>console\<close> the lines printed.
\<close>

datatype effect =
    StripeCall string
  | LedgerMarked string
  | OrderCreated string
  | DonationCreated string
  | EmailSent string string
  | EmailFailed string string

record world =
  storage :: mem_storage
  db :: "string list option"
  trace :: "effect list"
  console :: "string list"

definition emit :: "effect \<Rightarrow> world \<Rightarrow> world" where
  "emit e w = w\<lparr>trace := trace w @ [e]\<rparr>"

definition console_log :: "string \<Rightarrow> world \<Rightarrow> world" where
  "console_log l w = w\<lparr>console := console w @ [l]\<rparr>"

definition console_error :: "string \<Rightarrow> world \<Rightarrow> world" where
  "console_error l w = w\<lparr>console := console w @ [l]\<rparr>"

datatype json_body =
    ErrorBody string
  | ReceivedBody "string option"
  | SessionBody string "string option"
  | OrderBody order
  | CartItemBody cart_item
  | CartItemsBody "cart_item list"

datatype response =
    Json nat json_body
  | Send nat string
  | NoContent nat
  | Redirect string

subsection \<open>The idempotency ledger\<close>

text \<open>
  \<open>selectFails\<close> and \<open>insertFails\<close> say whether the database call of this request
  throws an error other than a duplicate key; an insert of an identifier the table
  holds throws the duplicate-key error.
\<close>

definition processedEvents_add :: "string \<Rightarrow> world \<Rightarrow> world" where
  "processedEvents_add e w =
     w\<lparr>storage := (storage w)\<lparr>processedEvents := set_add e (processedEvents (storage w))\<rparr>\<rparr>"

definition isEventProcessed :: "bool \<Rightarrow> world \<Rightarrow> string \<Rightarrow> world \<times> bool" where
  "isEventProcessed selectFails w eventId =
     (case db w of
        None \<Rightarrow> (w, eventId \<in> set (processedEvents (storage w)))
      | Some rows \<Rightarrow>
          if selectFails then
            (console_error ''Database error checking webhook event, falling back to in-memory:'' w,
             eventId \<in> set (processedEvents (storage w)))
          else (w, eventId \<in> set rows))"

definition markEventProcessed :: "bool \<Rightarrow> world \<Rightarrow> string \<Rightarrow> world" where
  "markEventProcessed insertFails w eventId =
     emit (LedgerMarked eventId)
       (case db w of
          None \<Rightarrow> processedEvents_add eventId w
        | Some rows \<Rightarrow>
            if insertFails then
              processedEvents_add eventId
                (console_error ''Database error marking webhook event, falling back to in-memory:'' w)
            else if eventId \<in> set rows then
              console_log (''Event '' @ eventId @ '' already marked as processed in database'') w
            else processedEvents_add eventId (w\<lparr>db := Some (rows @ [eventId])\<rparr>))"

text \<open>The records the ledger holds for an identifier: in the table, or in memory without one.\<close>

definition ledger_records :: "world \<Rightarrow> string \<Rightarrow> nat" where
  "ledger_records w e =
     (case db w of
        None \<Rightarrow> count_list (processedEvents (storage w)) e
      | Some rows \<Rightarrow> count_list rows e)"

text \<open>The ledger holds an identifier: in the table, or in memory without a database.\<close>

definition recorded :: "world \<Rightarrow> string \<Rightarrow> bool" where
  "recorded w e =
     (case db w of
        None \<Rightarrow> e \<in> set (processedEvents (storage w))
      | Some rows \<Rightarrow> e \<in> set rows)"

subsection \<open>Email\<close>

text \<open>
  A message is kept as its recipient and subject; the bodies are fixed templates. The
  emoji that starts each line \<open>sendEmail\<close> prints is left out.
\<close>

record email_options =
  to :: string
  subject :: string

definition sendEmail :: "bool \<Rightarrow> email_options \<Rightarrow> world \<Rightarrow> world \<times> bool" where
  "sendEmail fails options w =
     (if fails then
        (console_error ''Failed to send email:'' (emit (EmailFailed (to options) (subject options)) w),
         False)
      else
        (console_log (''Email sent to '' @ to options @ '': '' @ subject options)
           (emit (EmailSent (to options) (subject options)) w),
         True))"

text \<open>
  Three sends in a row; the result \<open>False\<close> is the exception of the first send that
  fails, which nothing here catches. \<open>fails k\<close> is the outcome of the request's
  \<open>k\<close>-th send.
\<close>

definition sendOrderConfirmation :: "(nat \<Rightarrow> bool) \<Rightarrow> string \<Rightarrow> string \<Rightarrow> world \<Rightarrow> world \<times> bool" where
  "sendOrderConfirmation fails num custEmail w =
     (let (w1, ok1) =
            sendEmail (fails 0)
              \<lparr>to = custEmail, subject = ''Order Confirmation #'' @ num @ '' - Project V8''\<rparr> w
      in if \<not> ok1 then (w1, False)
         else
           (let (w2, ok2) =
                  sendEmail (fails 1)
                    \<lparr>to = ''allouzimohammed53@gmail.com'',
                     subject = ''New Order #'' @ num @ '' - Project V8''\<rparr> w1
            in if \<not> ok2 then (w2, False)
               else
                 sendEmail (fails 2)
                   \<lparr>to = ''orders@driftv8.xyz'',
                    subject = ''New Order #'' @ num @ '' - Project V8''\<rparr> w2))"

section \<open>Routes on orders and cart items\<close>

text \<open>
  The schema validators (\<^verbatim>\<open>insertCartItemSchema.parse\<close>,
  \<^verbatim>\<open>insertDonationSchema.parse\<close>) are arguments: they return the validated data, or
  \<open>None\<close> where they throw. Request bodies are the objects \<^verbatim>\<open>express.json\<close> decodes.
\<close>

definition patch_order_rating :: "world \<Rightarrow> string \<Rightarrow> jsval \<Rightarrow> world \<times> response" where
  "patch_order_rating w i r =
     (if \<not> isNumber r \<or> num_lt (toNumber r) (Finite 1) \<or> num_gt (toNumber r) (Finite 5) then
        (w, Json 400 (ErrorBody ''Rating must be between 1 and 5''))
      else
        (case updateOrderRating (storage w) i (toNumber r) of
           (s', None) \<Rightarrow> (w\<lparr>storage := s'\<rparr>, Json 404 (ErrorBody ''Order not found''))
         | (s', Some ord) \<Rightarrow> (w\<lparr>storage := s'\<rparr>, Json 200 (OrderBody ord))))"

definition get_cart :: "world \<Rightarrow> world \<times> response" where
  "get_cart w = (w, Json 200 (CartItemsBody (getCartItems (storage w))))"

definition post_cart ::
  "('b \<Rightarrow> insert_cart_item option) \<Rightarrow> world \<Rightarrow> 'b \<Rightarrow> string \<Rightarrow> int \<Rightarrow> world \<times> response" where
  "post_cart parse w body uuid now =
     (case parse body of
        None \<Rightarrow>
          (console_error ''Error adding cart item:'' w, Json 400 (ErrorBody ''Invalid cart item data''))
      | Some validatedData \<Rightarrow>
          (let (s', item) = addCartItem (storage w) validatedData uuid now
           in (w\<lparr>storage := s'\<rparr>, Json 201 (CartItemBody item))))"

definition patch_cart :: "world \<Rightarrow> string \<Rightarrow> jsval \<Rightarrow> world \<times> response" where
  "patch_cart w i q =
     (if \<not> isNumber q \<or> num_lt (toNumber q) (Finite 1) then
        (w, Json 400 (ErrorBody ''Invalid quantity''))
      else
        (case updateCartItemQuantity (storage w) i (toNumber q) of
           (s', None) \<Rightarrow> (w\<lparr>storage := s'\<rparr>, Json 404 (ErrorBody ''Cart item not found''))
         | (s', Some item) \<Rightarrow> (w\<lparr>storage := s'\<rparr>, Json 200 (CartItemBody item))))"

definition delete_cart_item :: "world \<Rightarrow> string \<Rightarrow> world \<times> response" where
  "delete_cart_item w i =
     (let (s', deleted) = removeCartItem (storage w) i
      in if \<not> deleted then (w\<lparr>storage := s'\<rparr>, Json 404 (ErrorBody ''Cart item not found''))
         else (w\<lparr>storage := s'\<rparr>, NoContent 204))"

section \<open>Checkout initiation\<close>

record config =
  stripe_configured :: bool
  webhookSecret :: "string option"



section \<open>The webhook processor\<close>

record pm_details =
  pm_type :: string
  card_wallet_type :: "string option"

record charge =
  payment_method_details :: "pm_details option"

record stripe_payment_intent =
  latest_charge :: "charge option"

record checkout_session =
  session_id :: string
  payment_intent :: "string option"
  payment_status :: string
  amount_total :: "nat option"
  customer_email :: "string option"
  customer_details_name :: "string option"
  customer_details_email :: "string option"
  metadata_customerName :: "string option"
  metadata_description :: "string option"
  metadata_type :: "string option"
  metadata_donorName :: "string option"
  metadata_donorEmail :: "string option"
  metadata_message :: "string option"

record stripe_event =
  event_id :: string
  event_type :: string
  event_object :: checkout_session

text \<open>
  What one delivery meets outside the process: the result of
  \<^verbatim>\<open>stripe.webhooks.constructEvent\<close> (\<open>Inl\<close> the message of the error it throws), the
  answer to \<^verbatim>\<open>paymentIntents.retrieve\<close> (\<open>None\<close> where it throws), whether the
  database calls and each email send fail, a fresh identifier and the time.
\<close>

record webhook_env =
  constructEvent :: "string + stripe_event"
  selectFails :: bool
  insertFails :: bool
  paymentIntents_retrieve :: "stripe_payment_intent option"
  sendFails :: "nat \<Rightarrow> bool"
  randomUUID :: string
  date_now :: int

definition toUpperCase_char :: "char \<Rightarrow> char" where
  "toUpperCase_char c =
     (if 97 \<le> (of_char c :: nat) \<and> (of_char c :: nat) \<le> 122
      then char_of ((of_char c :: nat) - 32) else c)"

definition capitalize :: "string \<Rightarrow> string" where
  "capitalize s = (case s of [] \<Rightarrow> [] | c # cs \<Rightarrow> toUpperCase_char c # cs)"

text \<open>The normalisation of \<^verbatim>\<open>pmDetails\<close> into the label \<^verbatim>\<open>paymentMethodType\<close>.\<close>

definition paymentMethodType :: "pm_details option \<Rightarrow> string" where
  "paymentMethodType pmDetails =
     (case pmDetails of
        None \<Rightarrow> ''Unknown''
      | Some d \<Rightarrow>
          if pm_type d = ''card'' then
            (if card_wallet_type d = Some ''apple_pay'' then ''Apple Pay''
             else if card_wallet_type d = Some ''google_pay'' then ''Google Pay''
             else ''Credit/Debit Card'')
          else if pm_type d = ''link'' then ''Link''
          else if pm_type d = ''klarna'' then ''Klarna''
          else if pm_type d = ''cashapp'' then ''Cash App''
          else if pm_type d = ''us_bank_account'' then ''ACH Bank Transfer''
          else if pm_type d = ''crypto'' then ''Cryptocurrency''
          else capitalize (pm_type d))"

text \<open>
  The label of a session: \<open>None\<close> where the retrieval throws. Without a payment
  intent on the session no call is made and the label stays \<^verbatim>\<open>Unknown\<close>.
\<close>

definition fetchPaymentMethod :: "webhook_env \<Rightarrow> checkout_session \<Rightarrow> world \<Rightarrow> world \<times> string option" where
  "fetchPaymentMethod env session w =
     (if str_truthy (payment_intent session) then
        (let w1 = emit (StripeCall ''paymentIntents.retrieve'') w
         in case paymentIntents_retrieve env of
              None \<Rightarrow> (w1, None)
            | Some intent \<Rightarrow>
                (w1, Some (paymentMethodType
                             (case latest_charge intent of
                                None \<Rightarrow> None
                              | Some ch \<Rightarrow> payment_method_details ch))))
      else (w, Some ''Unknown''))"

definition orderData :: "checkout_session \<Rightarrow> string \<Rightarrow> insert_order" where
  "orderData session pmt =
     \<lparr>customerName =
        or_default (or_else (metadata_customerName session) (customer_details_name session)) ''Unknown'',
      customerEmail =
        or_default (or_else (customer_details_email session) (customer_email session)) [],
      amount =
        numToString (Finite (of_nat (case amount_total session of None \<Rightarrow> 0 | Some c \<Rightarrow> c) / 100)),
      paymentMethod = pmt,
      description = or_default (metadata_description session) ''Project V8 Order'',
      supplied_orderNumber = None\<rparr>"

text \<open>
  The body of the \<^verbatim>\<open>checkout.session.completed\<close> branch. The result \<open>False\<close> is an
  exception that leaves the branch for the handler's \<^verbatim>\<open>catch\<close>.
\<close>

definition completeCheckout :: "webhook_env \<Rightarrow> checkout_session \<Rightarrow> world \<Rightarrow> world \<times> bool" where
  "completeCheckout env session w =
     (case fetchPaymentMethod env session w of
        (w1, None) \<Rightarrow> (w1, False)
      | (w1, Some pmt) \<Rightarrow>
          (let od = orderData session pmt;
               (s', ord) = createOrder (storage w1) od (randomUUID env) (date_now env);
               w2 = emit (OrderCreated (orderNumber ord)) (w1\<lparr>storage := s'\<rparr>);
               (w3, sent) =
                 sendOrderConfirmation (sendFails env) (orderNumber ord) (customerEmail od) w2
           in if sent then
                (console_log (''Order '' @ orderNumber ord @ '' created from Stripe payment ''
                              @ session_id session @ '' using '' @ pmt) w3, True)
              else (w3, False)))"

definition handleStripeWebhook ::
  "config \<Rightarrow> string option \<Rightarrow> webhook_env \<Rightarrow> world \<Rightarrow> world \<times> response" where
  "handleStripeWebhook cfg sig env w =
     (if \<not> stripe_configured cfg then
        (w, Json 503 (ErrorBody ''Stripe is not configured''))
      else if \<not> str_truthy sig \<or> \<not> str_truthy (webhookSecret cfg) then
        (console_error ''Missing signature or webhook secret'' w,
         Send 400 ''Webhook error: Missing signature'')
      else
        (case constructEvent env of
           Inl msg \<Rightarrow>
             (console_error ''Webhook signature verification failed:'' w,
              Send 400 (''Webhook Error: '' @ msg))
         | Inr event \<Rightarrow>
             (let (w1, isProcessed) = isEventProcessed (selectFails env) w (event_id event)
              in if isProcessed then
                   (console_log (''Event '' @ event_id event @ '' already processed, skipping'') w1,
                    Json 200 (ReceivedBody (Some ''Event already processed'')))
                 else
                   (let w2 = markEventProcessed (insertFails env) w1 (event_id event)
                    in if event_type event = ''checkout.session.completed'' then
                         (case completeCheckout env (event_object event) w2 of
                            (w3, True) \<Rightarrow> (w3, Json 200 (ReceivedBody None))
                          | (w3, False) \<Rightarrow>
                              (console_error ''Webhook handler error:'' w3,
                               Json 500 (ErrorBody ''Webhook handler failed'')))
                       else (w2, Json 200 (ReceivedBody None))))))"

text \<open>
  A delivery is verified when the provider is configured, the signature header and
  the secret are present and \<^verbatim>\<open>constructEvent\<close> returns the event.
\<close>

definition verified :: "config \<Rightarrow> string option \<Rightarrow> webhook_env \<Rightarrow> stripe_event \<Rightarrow> bool" where
  "verified cfg sig env ev =
     (stripe_configured cfg \<and> str_truthy sig \<and> str_truthy (webhookSecret cfg)
      \<and> constructEvent env = Inr ev)"

text \<open>The identifier is in the ledger, in memory or in the table.\<close>

definition held :: "world \<Rightarrow> string \<Rightarrow> bool" where
  "held w e =
     (e \<in> set (processedEvents (storage w))
      \<or> (case db w of None \<Rightarrow> False | Some rows \<Rightarrow> e \<in> set rows))"

text \<open>
  The ledger's calls to the database succeed for this delivery, or there is no
  database and the ledger is the in-memory set.
\<close>

definition ledger_reliable :: "world \<Rightarrow> webhook_env \<Rightarrow> bool" where
  "ledger_reliable w env = (db w = None \<or> (\<not> selectFails env \<and> \<not> insertFails env))"

definition duplicate_ack :: response where
  "duplicate_ack = Json 200 (ReceivedBody (Some ''Event already processed''))"

text \<open>Successive deliveries, each with what it meets; the responses in order.\<close>

fun deliveries ::
  "config \<Rightarrow> string option \<Rightarrow> webhook_env list \<Rightarrow> world \<Rightarrow> world \<times> response list" where
  "deliveries cfg sig [] w = (w, [])"
| "deliveries cfg sig (env # envs) w =
     (let (w1, r) = handleStripeWebhook cfg sig env w;
          (w2, rs) = deliveries cfg sig envs w1
      in (w2, r # rs))"

fun is_order_created :: "effect \<Rightarrow> bool" where
  "is_order_created (OrderCreated _) = True"
| "is_order_created _ = False"

definition orders_created :: "world \<Rightarrow> nat" where
  "orders_created w = length (filter is_order_created (trace w))"

section \<open>The donation success redirect\<close>

datatype query_param = QAbsent | QString string | QOther

text \<open>
  \<open>sessions_retrieve\<close> is the provider's answer to \<^verbatim>\<open>checkout.sessions.retrieve\<close>,
  \<open>None\<close> where loading the client or the call throws.
\<close>

record donation_env =
  sessions_retrieve :: "checkout_session option"
  donation_selectFails :: bool
  donation_insertFails :: bool
  donation_randomUUID :: string
  donation_now :: int

text \<open>\<^verbatim>\<open>(cents / 100).toFixed(2)\<close> for a whole number of cents.\<close>

definition toFixed2 :: "nat \<Rightarrow> string" where
  "toFixed2 cents =
     natToString (cents div 100) @ ''.'' @ [digit_char (cents mod 100 div 10), digit_char (cents mod 10)]"

definition donation_success ::
  "(insert_donation \<Rightarrow> insert_donation option) \<Rightarrow> donation_env \<Rightarrow> query_param \<Rightarrow> world
     \<Rightarrow> world \<times> response" where
  "donation_success parse env q w =
     (case q of
        QAbsent \<Rightarrow> (w, Redirect ''/?donation_error=missing_session'')
      | QOther \<Rightarrow> (w, Redirect ''/?donation_error=missing_session'')
      | QString sid \<Rightarrow>
          if sid = [] then (w, Redirect ''/?donation_error=missing_session'')
          else
            (let (w1, alreadyProcessed) =
                   isEventProcessed (donation_selectFails env) w (''donation_'' @ sid)
             in if alreadyProcessed then (w1, Redirect ''/?donation_success=true'')
                else
                  (let w2 = emit (StripeCall ''checkout.sessions.retrieve'') w1
                   in case sessions_retrieve env of
                        None \<Rightarrow>
                          (console_error ''Error processing donation success:'' w2,
                           Redirect ''/?donation_error=processing_failed'')
                      | Some session \<Rightarrow>
                          if payment_status session \<noteq> ''paid''
                             \<or> metadata_type session \<noteq> Some ''donation''
                             \<or> \<not> str_truthy (metadata_donorName session)
                             \<or> \<not> str_truthy (metadata_donorEmail session) then
                            (w2, Redirect ''/?donation_error=payment_failed'')
                          else
                            (let amountPaid =
                                   (case amount_total session of
                                      None \<Rightarrow> ''0''
                                    | Some c \<Rightarrow> if c = 0 then ''0'' else toFixed2 c);
                                 donationData =
                                   \<lparr>donorName = the (metadata_donorName session),
                                    donorEmail = the (metadata_donorEmail session),
                                    donation_amount_in = amountPaid,
                                    message = Some (or_default (metadata_message session) [])\<rparr>
                             in case parse donationData of
                                  None \<Rightarrow>
                                    (console_error ''Error saving donation:'' w2,
                                     Redirect ''/?donation_error=save_failed'')
                                | Some validatedData \<Rightarrow>
                                    (let (s', d) =
                                           createDonation (storage w2) validatedData
                                             (donation_randomUUID env) (donation_now env);
                                         w3 = emit (DonationCreated (donation_id d)) (w2\<lparr>storage := s'\<rparr>);
                                         w4 = markEventProcessed (donation_insertFails env) w3
                                                (''donation_'' @ sid)
                                     in (w4, Redirect ''/?donation_success=true''))))))"

section \<open>Order of effects\<close>

text \<open>The work the ledger guards: creating a record and sending mail.\<close>

fun is_side_effect :: "effect \<Rightarrow> bool" where
  "is_side_effect (OrderCreated _) = True"
| "is_side_effect (DonationCreated _) = True"
| "is_side_effect (EmailSent _ _) = True"
| "is_side_effect (EmailFailed _ _) = True"
| "is_side_effect _ = False"

text \<open>
  In a trace, read in the order of time, the ledger mark of \<open>e\<close> comes before
  every side effect.
\<close>

fun marked_first :: "string \<Rightarrow> effect list \<Rightarrow> bool" where
  "marked_first e [] = True"
| "marked_first e (x # xs) =
     (if x = LedgerMarked e then True
      else if is_side_effect x then False
      else marked_first e xs)"

section \<open>Concrete inputs\<close>

definition w0 :: world where
  "w0 = \<lparr>storage = MemStorage_new, db = None, trace = [], console = []\<rparr>"

definition p1_item :: insert_cart_item where
  "p1_item =
     \<lparr>productFields = [(''productId'', ''p1'')], imageUrls = None, supplied_quantity = Some ''7''\<rparr>"

definition c1_item :: cart_item where
  "c1_item =
     \<lparr>cart_productFields = [(''productId'', ''p1'')], cart_imageUrls = None,
      cart_id = ''c1'', quantity = ''1'', cart_createdAt = 5\<rparr>"

definition ada_order :: insert_order where
  "ada_order =
     \<lparr>customerName = ''Ada'', customerEmail = ''ada@example.org'', amount = ''19.99'',
      paymentMethod = ''Link'', description = ''Bot'', supplied_orderNumber = Some ''ORD-1''\<rparr>"

definition ordA :: order where
  "ordA = snd (createOrder MemStorage_new ada_order ''a'' 1)"

definition wA :: world where
  "wA = w0\<lparr>storage := fst (createOrder MemStorage_new ada_order ''a'' 1)\<rparr>"

definition cfg_live :: config where
  "cfg_live = \<lparr>stripe_configured = True, webhookSecret = Some ''whsec_1''\<rparr>"

definition session1 :: checkout_session where
  "session1 =
     \<lparr>session_id = ''cs_1'', payment_intent = Some ''pi_1'', payment_status = ''paid'',
      amount_total = Some 2000, customer_email = None,
      customer_details_name = Some ''Ada'', customer_details_email = Some ''ada@example.org'',
      metadata_customerName = None, metadata_description = None, metadata_type = None,
      metadata_donorName = None, metadata_donorEmail = None, metadata_message = None\<rparr>"

definition event1 :: stripe_event where
  "event1 =
     \<lparr>event_id = ''evt_1'', event_type = ''checkout.session.completed'', event_object = session1\<rparr>"

definition apple_intent :: stripe_payment_intent where
  "apple_intent =
     \<lparr>latest_charge =
        Some \<lparr>payment_method_details =
                Some \<lparr>pm_type = ''card'', card_wallet_type = Some ''apple_pay''\<rparr>\<rparr>\<rparr>"

definition env_ok :: webhook_env where
  "env_ok =
     \<lparr>constructEvent = Inr event1, selectFails = False, insertFails = False,
      paymentIntents_retrieve = Some apple_intent, sendFails = (\<lambda>k. False),
      randomUUID = ''u1'', date_now = 7\<rparr>"

definition env_retrieve_throws :: webhook_env where
  "env_retrieve_throws = env_ok\<lparr>paymentIntents_retrieve := None\<rparr>"

definition env_mail_fails :: webhook_env where
  "env_mail_fails = env_ok\<lparr>sendFails := (\<lambda>k. k = 0)\<rparr>"

definition env_last_mail_fails :: webhook_env where
  "env_last_mail_fails = env_ok\<lparr>sendFails := (\<lambda>k. k = 2)\<rparr>"

definition env_insert_fails :: webhook_env where
  "env_insert_fails = env_ok\<lparr>insertFails := True\<rparr>"

definition env_second :: webhook_env where
  "env_second = env_ok\<lparr>randomUUID := ''u2''\<rparr>"

definition w_db :: world where
  "w_db = w0\<lparr>db := Some []\<rparr>"

text \<open>A table that holds the event and an empty in-memory set, as after a restart of the process.\<close>

definition w_table :: world where
  "w_table = w0\<lparr>db := Some [''evt_1'']\<rparr>"

definition env_select_fails :: webhook_env where
  "env_select_fails = env_ok\<lparr>selectFails := True\<rparr>"

definition donation_session1 :: checkout_session where
  "donation_session1 =
     session1\<lparr>metadata_type := Some ''donation'', metadata_donorName := Some ''Ada'',
              metadata_donorEmail := Some ''ada@example.org''\<rparr>"

definition donation_env1 :: donation_env where
  "donation_env1 =
     \<lparr>sessions_retrieve = Some donation_session1, donation_selectFails = False,
      donation_insertFails = False, donation_randomUUID = ''d1'', donation_now = 9\<rparr>"

definition w_marked :: world where
  "w_marked =
     w0\<lparr>storage := MemStorage_new\<lparr>processedEvents := [''evt_1'', ''donation_s1'']\<rparr>\<rparr>"

text \<open>The process after the first delivery of \<open>event1\<close> to \<open>w0\<close>.\<close>

definition w_once :: world where
  "w_once =
     \<lparr>storage =
        \<lparr>orders =
           [(''u1'',
             \<lparr>order_customerName = ''Ada'', order_customerEmail = ''ada@example.org'',
              order_amount = ''20'', order_paymentMethod = ''Apple Pay'',
              order_description = ''Project V8 Order'', order_id = ''u1'',
              orderNumber = ''ORD-1001'', rating = None, order_createdAt = 7\<rparr>)],
         cartItems = [], donations = [], processedEvents = [''evt_1''], orderCounter = 1001\<rparr>,
      db = None,
      trace =
        [LedgerMarked ''evt_1'', StripeCall ''paymentIntents.retrieve'', OrderCreated ''ORD-1001'',
         EmailSent ''ada@example.org'' ''Order Confirmation #ORD-1001 - Project V8'',
         EmailSent ''allouzimohammed53@gmail.com'' ''New Order #ORD-1001 - Project V8'',
         EmailSent ''orders@driftv8.xyz'' ''New Order #ORD-1001 - Project V8''],
      console =
        [''Email sent to ada@example.org: Order Confirmation #ORD-1001 - Project V8'',
         ''Email sent to allouzimohammed53@gmail.com: New Order #ORD-1001 - Project V8'',
         ''Email sent to orders@driftv8.xyz: New Order #ORD-1001 - Project V8'',
         ''Order ORD-1001 created from Stripe payment cs_1 using Apple Pay'']\<rparr>"

definition donation_env_insert_fails :: donation_env where
  "donation_env_insert_fails = donation_env1\<lparr>donation_insertFails := True\<rparr>"

definition donation_env2 :: donation_env where
  "donation_env2 = donation_env1\<lparr>donation_randomUUID := ''d2''\<rparr>"

section \<open>Decimal rendering\<close>

lemma digit_val_digit_char: "d < 10 \<Longrightarrow> digit_val (digit_char d) = d"
proof -
  assume "d < 10"
  then have "d \<in> {0, 1, 2, 3, 4, 5, 6, 7, 8, 9}" by auto
  then show ?thesis by (auto simp: digit_val_def digit_char_def)
qed

text \<open>Reading the digits back gives the number: rendering is injective.\<close>

lemma stringToNat_natToString: "stringToNat (natToString n) = n"
proof (induction n rule: natToString.induct)
  case (1 n)
  show ?case
  proof (cases "n < 10")
    case True
    then show ?thesis
      by (simp add: natToString.simps[of n] stringToNat_def digit_val_digit_char)
  next
    case False
    with 1 have "stringToNat (natToString (n div 10)) = n div 10" by simp
    with False show ?thesis
      by (simp add: natToString.simps[of n] stringToNat_def digit_val_digit_char)
  qed
qed

lemma natToString_inj: "natToString m = natToString n \<Longrightarrow> m = n"
  by (metis stringToNat_natToString)

lemma natToString_3: "natToString 3 = ''3''"
  by (simp add: natToString.simps digit_char_def)

lemma numToString_3: "numToString (Finite 3) = ''3''"
  by (simp add: natToString_3)

lemma orderNumberValue_ORD:
  "orderNumberValue (CHR ''O'' # CHR ''R'' # CHR ''D'' # CHR ''-'' # natToString n) = n"
  by (simp add: orderNumberValue_def stringToNat_natToString)

section \<open>Order numbers\<close>

lemma createOrder_number:
  "orderNumber (snd (createOrder s ins uuid now)) = ''ORD-'' @ natToString (Suc (orderCounter s))"
  by (simp add: createOrder_def generateOrderNumber_def Let_def)

lemma createOrder_counter:
  "orderCounter (fst (createOrder s ins uuid now)) = Suc (orderCounter s)"
  by (simp add: createOrder_def generateOrderNumber_def Let_def)

lemma createOrder_orders:
  "orders (fst (createOrder s ins uuid now)) =
     AList.update uuid (snd (createOrder s ins uuid now)) (orders s)"
  by (simp add: createOrder_def generateOrderNumber_def Let_def)

lemma exec_op_counter_mono: "orderCounter s \<le> orderCounter (exec_op op s)"
  by (cases op)
     (auto simp: createOrder_counter updateOrderRating_def addCartItem_def
        updateCartItemQuantity_def removeCartItem_def clearCart_def createDonation_def Let_def
        split: option.splits)

lemma run_ops_counter_mono: "orderCounter s \<le> orderCounter (run_ops ops s)"
proof (induction ops arbitrary: s)
  case Nil
  then show ?case by simp
next
  case (Cons op ops)
  have "orderCounter s \<le> orderCounter (exec_op op s)" by (rule exec_op_counter_mono)
  also have "\<dots> \<le> orderCounter (run_ops ops (exec_op op s))" by (rule Cons.IH)
  finally show ?case by simp
qed

text \<open>Every number a run issues lies above the counter it started from and at most at the counter it ends with.\<close>

lemma issued_bounds:
  "list_all (\<lambda>n. orderCounter s < orderNumberValue n
                 \<and> orderNumberValue n \<le> orderCounter (run_ops ops s)) (issued ops s)"
proof (induction ops arbitrary: s)
  case Nil
  then show ?case by simp
next
  case (Cons op ops)
  have mono: "orderCounter s \<le> orderCounter (exec_op op s)" by (rule exec_op_counter_mono)
  have rest: "list_all (\<lambda>n. orderCounter s < orderNumberValue n
                 \<and> orderNumberValue n \<le> orderCounter (run_ops ops (exec_op op s)))
              (issued ops (exec_op op s))"
    using Cons.IH[of "exec_op op s"] mono by (auto simp: list_all_iff)
  have first: "list_all (\<lambda>n. orderCounter s < orderNumberValue n
                 \<and> orderNumberValue n \<le> orderCounter (run_ops ops (exec_op op s)))
              (case op of
                 OpCreateOrder ins uuid now \<Rightarrow> [orderNumber (snd (createOrder s ins uuid now))]
               | _ \<Rightarrow> [])"
  proof (cases op)
    case (OpCreateOrder ins uuid now)
    have "Suc (orderCounter s) \<le> orderCounter (run_ops ops (exec_op op s))"
      using run_ops_counter_mono[of "exec_op op s" ops] OpCreateOrder
      by (simp add: createOrder_counter)
    then show ?thesis
      using OpCreateOrder by (simp add: createOrder_number orderNumberValue_ORD)
  qed simp_all
  show ?case using first rest by simp
qed

lemma issued_sorted: "sorted_wrt (<) (map orderNumberValue (issued ops s))"
proof (induction ops arbitrary: s)
  case Nil
  then show ?case by simp
next
  case (Cons op ops)
  have later: "\<forall>n \<in> set (issued ops (exec_op op s)). orderCounter (exec_op op s) < orderNumberValue n"
    using issued_bounds[of "exec_op op s" ops] by (auto simp: list_all_iff)
  show ?case
  proof (cases op)
    case (OpCreateOrder ins uuid now)
    then show ?thesis
      using Cons.IH[of "exec_op op s"] later
      by (auto simp: createOrder_number orderNumberValue_ORD createOrder_counter)
  qed (use Cons.IH[of "exec_op op s"] in simp_all)
qed

lemma update_keeps_distinct:
  "distinct (map f xs) \<Longrightarrow> f (k, v) \<notin> f ` set xs \<Longrightarrow> distinct (map f (AList.update k v xs))"
proof (induction xs)
  case Nil
  then show ?case by simp
next
  case (Cons p xs)
  have sub: "f ` set (AList.update k v xs) \<subseteq> insert (f (k, v)) (f ` set xs)"
    by (induction xs) auto
  show ?case
  proof (cases "fst p = k")
    case True
    then show ?thesis using Cons.prems by (cases p) auto
  next
    case False
    then show ?thesis using Cons sub by (cases p) auto
  qed
qed

lemma update_same_image:
  "map_of xs k = Some v \<Longrightarrow> f (k, v') = f (k, v) \<Longrightarrow> map f (AList.update k v' xs) = map f xs"
  by (induction xs) (auto split: if_splits)

lemma update_list_all:
  "list_all P xs \<Longrightarrow> P (k, v) \<Longrightarrow> list_all P (AList.update k v xs)"
  by (induction xs) auto

lemma createOrder_ok:
  assumes "order_numbers_ok s"
  shows "order_numbers_ok (fst (createOrder s ins uuid now))"
proof -
  let ?f = "\<lambda>kv::string \<times> order. orderNumber (snd kv)"
  let ?ord = "snd (createOrder s ins uuid now)"
  have old: "\<forall>kv \<in> set (orders s). orderNumberValue (?f kv) \<le> orderCounter s"
    using assms by (simp add: order_numbers_ok_def list_all_iff)
  have new: "orderNumberValue (orderNumber ?ord) = Suc (orderCounter s)"
    by (simp add: createOrder_number orderNumberValue_ORD)
  have fresh: "?f (uuid, ?ord) \<notin> ?f ` set (orders s)"
  proof
    assume "?f (uuid, ?ord) \<in> ?f ` set (orders s)"
    then obtain kv where "kv \<in> set (orders s)" and "?f kv = orderNumber ?ord" by auto
    with old new show False by fastforce
  qed
  have d: "distinct (map ?f (AList.update uuid ?ord (orders s)))"
    using assms fresh by (intro update_keeps_distinct) (simp_all add: order_numbers_ok_def)
  have b: "list_all (\<lambda>kv. orderNumberValue (?f kv) \<le> Suc (orderCounter s))
             (AList.update uuid ?ord (orders s))"
    using old new by (intro update_list_all) (auto simp: list_all_iff)
  show ?thesis
    using d b by (simp add: order_numbers_ok_def createOrder_orders createOrder_counter)
qed

lemma updateOrderRating_ok:
  assumes "order_numbers_ok s"
  shows "order_numbers_ok (fst (updateOrderRating s i r))"
proof (cases "map_of (orders s) i")
  case None
  then show ?thesis using assms by (simp add: updateOrderRating_def)
next
  case (Some ord)
  let ?f = "\<lambda>kv::string \<times> order. orderNumber (snd kv)"
  let ?g = "\<lambda>kv::string \<times> order. orderNumberValue (orderNumber (snd kv)) \<le> orderCounter s"
  have "map ?f (AList.update i (ord\<lparr>rating := Some (numToString r)\<rparr>) (orders s)) = map ?f (orders s)"
    using Some by (intro update_same_image) simp_all
  moreover have "list_all ?g (AList.update i (ord\<lparr>rating := Some (numToString r)\<rparr>) (orders s))"
  proof (intro update_list_all)
    show "list_all ?g (orders s)" using assms by (simp add: order_numbers_ok_def)
    have "(i, ord) \<in> set (orders s)" using Some by (rule map_of_SomeD)
    then show "?g (i, ord\<lparr>rating := Some (numToString r)\<rparr>)"
      using assms by (auto simp: order_numbers_ok_def list_all_iff)
  qed
  ultimately show ?thesis
    using Some assms by (simp add: updateOrderRating_def order_numbers_ok_def Let_def)
qed

lemma exec_op_ok: "order_numbers_ok s \<Longrightarrow> order_numbers_ok (exec_op op s)"
proof (cases op)
  case (OpCreateOrder ins uuid now)
  assume "order_numbers_ok s"
  then show ?thesis using OpCreateOrder by (simp add: createOrder_ok)
next
  case (OpUpdateOrderRating i r)
  assume "order_numbers_ok s"
  then show ?thesis using OpUpdateOrderRating by (simp add: updateOrderRating_ok)
qed (auto simp: order_numbers_ok_def addCartItem_def updateCartItemQuantity_def
       removeCartItem_def clearCart_def createDonation_def Let_def split: option.splits)

lemma run_ops_ok: "order_numbers_ok s \<Longrightarrow> order_numbers_ok (run_ops ops s)"
  by (induction ops arbitrary: s) (simp_all add: exec_op_ok)

lemma new_ok: "order_numbers_ok MemStorage_new"
  by (simp add: order_numbers_ok_def MemStorage_new_def)

text \<open>
  C5. In any store reached from a new one by the store's methods, \<open>createOrder\<close>
  returns the number \<^verbatim>\<open>ORD-\<close> followed by the incremented counter, whatever the
  caller's data holds (an order number the caller supplies is not read). That number
  displays a value above every number issued earlier in the run and above every number
  in the store, so it differs from all of them; the stored orders keep pairwise
  different numbers; and the numbers issued, in the order of the calls, increase
  strictly.
\<close>

theorem createOrder_orderNumber:
  "let s = run_ops ops MemStorage_new;
       (s', ord) = createOrder s ins uuid now
   in orderNumber ord = ''ORD-'' @ natToString (orderCounter s + 1)
      \<and> orderNumber (snd (createOrder s (ins\<lparr>supplied_orderNumber := x\<rparr>) uuid now)) = orderNumber ord
      \<and> list_all (\<lambda>n. orderNumberValue n < orderNumberValue (orderNumber ord))
           (issued ops MemStorage_new)
      \<and> orderNumber ord \<notin> set (issued ops MemStorage_new)
      \<and> list_all (\<lambda>kv. orderNumberValue (orderNumber (snd kv)) < orderNumberValue (orderNumber ord))
           (orders s)
      \<and> orderNumber ord \<notin> set (map (\<lambda>kv. orderNumber (snd kv)) (orders s))
      \<and> distinct (map (\<lambda>kv. orderNumber (snd kv)) (orders s'))
      \<and> sorted_wrt (<) (map orderNumberValue (issued ops MemStorage_new @ [orderNumber ord]))"
proof -
  define s where "s = run_ops ops MemStorage_new"
  define ord where "ord = snd (createOrder s ins uuid now)"
  define s' where "s' = fst (createOrder s ins uuid now)"
  have ok: "order_numbers_ok s" unfolding s_def by (rule run_ops_ok) (rule new_ok)
  have num: "orderNumber ord = ''ORD-'' @ natToString (orderCounter s + 1)"
    unfolding ord_def by (simp add: createOrder_number)
  have val: "orderNumberValue (orderNumber ord) = Suc (orderCounter s)"
    using num by (simp add: orderNumberValue_ORD)
  have iss: "list_all (\<lambda>n. orderNumberValue n < orderNumberValue (orderNumber ord))
               (issued ops MemStorage_new)"
    using issued_bounds[of MemStorage_new ops] val by (auto simp: list_all_iff s_def)
  have notin: "orderNumber ord \<notin> set (issued ops MemStorage_new)"
    using iss by (auto simp: list_all_iff)
  have stored: "list_all (\<lambda>kv. orderNumberValue (orderNumber (snd kv)) < orderNumberValue (orderNumber ord))
                  (orders s)"
    using ok val by (auto simp: order_numbers_ok_def list_all_iff)
  have notstored: "orderNumber ord \<notin> set (map (\<lambda>kv. orderNumber (snd kv)) (orders s))"
    using stored by (auto simp: list_all_iff)
  have dist: "distinct (map (\<lambda>kv. orderNumber (snd kv)) (orders s'))"
    using createOrder_ok[OF ok, of ins uuid now] by (simp add: order_numbers_ok_def s'_def)
  have sorted: "sorted_wrt (<) (map orderNumberValue (issued ops MemStorage_new @ [orderNumber ord]))"
    using issued_sorted[of ops MemStorage_new] iss by (auto simp: sorted_wrt_append list_all_iff)
  have same: "orderNumber (snd (createOrder s (ins\<lparr>supplied_orderNumber := x\<rparr>) uuid now)) =
                orderNumber ord"
    unfolding ord_def by (simp add: createOrder_number)
  show ?thesis
    using num same iss notin stored notstored dist sorted
    by (simp add: s_def[symmetric] Let_def case_prod_beta ord_def[symmetric] s'_def[symmetric])
qed

lemma natToString_1001: "natToString 1001 = ''1001''"
  by code_simp

lemma natToString_1002: "natToString 1002 = ''1002''"
  by code_simp

theorem createOrder_orderNumber_witness:
  "orderNumber (snd (createOrder (run_ops [OpCreateOrder ada_order ''a'' 1] MemStorage_new)
                       ada_order ''b'' 2)) = ''ORD-1002''
   \<and> issued [OpCreateOrder ada_order ''a'' 1] MemStorage_new = [''ORD-1001'']"
  using createOrder_orderNumber[of "[OpCreateOrder ada_order ''a'' 1]" ada_order "''b''" 2 None]
  by (simp add: createOrder_def generateOrderNumber_def Let_def MemStorage_new_def
        natToString_1001 natToString_1002)

section \<open>Ratings and cart items\<close>

text \<open>
  C8. The rating route answers 400 for the ratings 0 and 6 (and for every number
  below 1 or above 5) and returns the process unchanged, store included. For the
  rating 3 and an identifier the store holds it answers with that order, its rating
  the string \<^verbatim>\<open>3\<close>, and stores it. For an identifier the store does not hold,
  \<open>updateOrderRating\<close> returns nothing and the route answers 404.
\<close>

theorem rating_update:
  "patch_order_rating w i (JNumber (Finite 0)) =
     (w, Json 400 (ErrorBody ''Rating must be between 1 and 5''))
   \<and> patch_order_rating w i (JNumber (Finite 6)) =
       (w, Json 400 (ErrorBody ''Rating must be between 1 and 5''))
   \<and> (q < 1 \<or> 5 < q \<longrightarrow>
        patch_order_rating w i (JNumber (Finite q)) =
          (w, Json 400 (ErrorBody ''Rating must be between 1 and 5'')))
   \<and> (map_of (orders (storage w)) i = Some ord \<longrightarrow>
        patch_order_rating w i (JNumber (Finite 3)) =
          (w\<lparr>storage := (storage w)\<lparr>orders :=
                AList.update i (ord\<lparr>rating := Some ''3''\<rparr>) (orders (storage w))\<rparr>\<rparr>,
           Json 200 (OrderBody (ord\<lparr>rating := Some ''3''\<rparr>))))
   \<and> (map_of (orders (storage w)) i = None \<longrightarrow>
        updateOrderRating (storage w) i r = (storage w, None)
        \<and> patch_order_rating w i (JNumber (Finite 3)) =
            (w, Json 404 (ErrorBody ''Order not found'')))"
  by (auto simp: patch_order_rating_def updateOrderRating_def num_gt_def numToString_3
        natToString_3 Let_def)

theorem rating_update_witness:
  "map_of (orders (storage wA)) ''a'' = Some ordA
   \<and> map_of (orders (storage wA)) ''zz'' = None
   \<and> (6::rat) > 5
   \<and> patch_order_rating wA ''a'' (JNumber (Finite 6)) =
       (wA, Json 400 (ErrorBody ''Rating must be between 1 and 5''))
   \<and> patch_order_rating wA ''a'' (JNumber (Finite 3)) =
       (wA\<lparr>storage := (storage wA)\<lparr>orders := [(''a'', ordA\<lparr>rating := Some ''3''\<rparr>)]\<rparr>\<rparr>,
        Json 200 (OrderBody (ordA\<lparr>rating := Some ''3''\<rparr>)))
   \<and> patch_order_rating wA ''zz'' (JNumber (Finite 3)) =
       (wA, Json 404 (ErrorBody ''Order not found''))"
  using rating_update[of wA "''a''" 6 ordA NaN]
        rating_update[of wA "''zz''" 6 ordA NaN]
  by (simp add: wA_def ordA_def w0_def MemStorage_new_def createOrder_def
        generateOrderNumber_def Let_def ada_order_def)

lemma exec_op_cart:
  "\<not> is_quantity_update op \<Longrightarrow> map_of (cartItems (exec_op op s)) k = Some it
     \<Longrightarrow> quantity it = ''1'' \<or> map_of (cartItems s) k = Some it"
  by (cases op)
     (auto simp: addCartItem_def createOrder_def generateOrderNumber_def updateOrderRating_def
        removeCartItem_def clearCart_def createDonation_def update_conv' delete_conv' Let_def
        split: option.splits if_splits prod.splits)

text \<open>
  C10. For every store and every insert data, \<open>addCartItem\<close> returns and stores an
  item of quantity \<^verbatim>\<open>1\<close>; a quantity the caller supplies changes nothing. After any
  store operation other than \<open>updateCartItemQuantity\<close>, an item of the cart either
  has quantity \<^verbatim>\<open>1\<close> or was there, unchanged, before the operation.
\<close>

theorem addCartItem_quantity_one:
  "quantity (snd (addCartItem s ins uuid now)) = ''1''
   \<and> map_of (cartItems (fst (addCartItem s ins uuid now))) uuid = Some (snd (addCartItem s ins uuid now))
   \<and> addCartItem s (ins\<lparr>supplied_quantity := q\<rparr>) uuid now = addCartItem s ins uuid now
   \<and> (\<not> is_quantity_update op \<longrightarrow> map_of (cartItems (exec_op op s)) k = Some it
        \<longrightarrow> quantity it = ''1'' \<or> map_of (cartItems s) k = Some it)"
  using exec_op_cart[of op s k it]
  by (simp add: addCartItem_def Let_def update_conv')

theorem addCartItem_quantity_one_witness:
  "\<not> is_quantity_update (OpRemoveCartItem ''c2'')
   \<and> map_of (cartItems (exec_op (OpRemoveCartItem ''c2'')
                (fst (addCartItem MemStorage_new p1_item ''c1'' 5)))) ''c1'' = Some c1_item
   \<and> quantity (snd (addCartItem MemStorage_new p1_item ''c1'' 5)) = ''1''
   \<and> map_of (cartItems (fst (addCartItem MemStorage_new p1_item ''c1'' 5))) ''c1'' = Some c1_item
   \<and> quantity c1_item = ''1''"
  using addCartItem_quantity_one[of MemStorage_new p1_item "''c1''" 5 None
          "OpRemoveCartItem ''c2''" "''c1''" c1_item]
  by (simp add: addCartItem_def p1_item_def c1_item_def Let_def MemStorage_new_def
        removeCartItem_def delete_conv')

lemma delete_keys_ok:
  "list_all (\<lambda>kv. cart_id (snd kv) = fst kv) xs
     \<Longrightarrow> k \<notin> set (map cart_id (map snd (AList.delete k xs)))"
  by (induction xs) (auto simp: AList.delete_eq)

lemma exec_op_cart_keys: "cart_keys_ok s \<Longrightarrow> cart_keys_ok (exec_op op s)"
proof (cases op)
  case (OpAddCartItem ins uuid now)
  assume "cart_keys_ok s"
  then show ?thesis
    using OpAddCartItem
    by (simp add: cart_keys_ok_def addCartItem_def Let_def update_list_all)
next
  case (OpUpdateCartItemQuantity i q)
  assume ok: "cart_keys_ok s"
  show ?thesis
  proof (cases "map_of (cartItems s) i")
    case None
    then show ?thesis using ok OpUpdateCartItemQuantity by (simp add: updateCartItemQuantity_def)
  next
    case (Some item)
    then have "(i, item) \<in> set (cartItems s)" by (rule map_of_SomeD)
    then have "cart_id item = i" using ok by (auto simp: cart_keys_ok_def list_all_iff)
    then show ?thesis
      using ok Some OpUpdateCartItemQuantity
      by (simp add: cart_keys_ok_def updateCartItemQuantity_def Let_def update_list_all)
  qed
next
  case (OpRemoveCartItem i)
  assume "cart_keys_ok s"
  then show ?thesis
    using OpRemoveCartItem
    by (auto simp: cart_keys_ok_def removeCartItem_def AList.delete_eq list_all_iff)
qed (auto simp: cart_keys_ok_def createOrder_def generateOrderNumber_def updateOrderRating_def
       clearCart_def createDonation_def Let_def split: option.splits)

text \<open>Every store reached from a new one keeps its cart entries under their own identifiers.\<close>

lemma run_ops_cart_keys: "cart_keys_ok s \<Longrightarrow> cart_keys_ok (run_ops ops s)"
  by (induction ops arbitrary: s) (simp_all add: exec_op_cart_keys)

lemma new_cart_keys: "cart_keys_ok (run_ops ops MemStorage_new)"
  by (rule run_ops_cart_keys) (simp add: cart_keys_ok_def MemStorage_new_def)

text \<open>
  C9. In a store whose cart entries lie under their own identifiers, and for a body
  the schema accepts: the POST answers 201 with an item of quantity \<^verbatim>\<open>1\<close>; the PATCH
  of that item with the quantity 3 answers with the item, its quantity \<^verbatim>\<open>3\<close>; the
  DELETE answers 204; and the list the next GET returns holds no item of that
  identifier: it is the list of the cart before the POST without that identifier.
\<close>

theorem cart_scenario:
  assumes "cart_keys_ok (storage w)" and "parse body = Some ins"
  shows "let (w1, r1) = post_cart parse w body uuid now;
             (w2, r2) = patch_cart w1 uuid (JNumber (Finite 3));
             (w3, r3) = delete_cart_item w2 uuid;
             (w4, r4) = get_cart w3;
             item = \<lparr>cart_productFields = productFields ins, cart_imageUrls = imageUrls ins,
                     cart_id = uuid, quantity = ''1'', cart_createdAt = now\<rparr>
         in r1 = Json 201 (CartItemBody item)
            \<and> r2 = Json 200 (CartItemBody (item\<lparr>quantity := ''3''\<rparr>))
            \<and> r3 = NoContent 204
            \<and> r4 = Json 200 (CartItemsBody (getCartItems (storage w3)))
            \<and> uuid \<notin> set (map cart_id (getCartItems (storage w3)))
            \<and> getCartItems (storage w3) =
                getCartItems ((storage w)\<lparr>cartItems := AList.delete uuid (cartItems (storage w))\<rparr>)"
proof -
  have k: "uuid \<notin> set (map cart_id (map snd (AList.delete uuid (cartItems (storage w)))))"
    using assms(1) unfolding cart_keys_ok_def by (rule delete_keys_ok)
  then have k': "uuid \<notin> cart_id ` snd ` set (AList.delete uuid (cartItems (storage w)))"
    by (simp add: image_image)
  show ?thesis
    using assms(2) k'
    by (simp add: post_cart_def patch_cart_def delete_cart_item_def get_cart_def addCartItem_def
          updateCartItemQuantity_def removeCartItem_def getCartItems_def Let_def update_conv'
          num_gt_def numToString_3 natToString_3 delete_update_same image_image)
qed

theorem cart_scenario_witness:
  "cart_keys_ok (storage w0) \<and> Some p1_item = Some p1_item
   \<and> (let (w1, r1) = post_cart Some w0 p1_item ''c1'' 5;
           (w2, r2) = patch_cart w1 ''c1'' (JNumber (Finite 3));
           (w3, r3) = delete_cart_item w2 ''c1'';
           (w4, r4) = get_cart w3
       in r1 = Json 201 (CartItemBody c1_item)
          \<and> r2 = Json 200 (CartItemBody (c1_item\<lparr>quantity := ''3''\<rparr>))
          \<and> r3 = NoContent 204
          \<and> r4 = Json 200 (CartItemsBody []))"
proof -
  have h1: "cart_keys_ok (storage w0)" by (simp add: cart_keys_ok_def w0_def MemStorage_new_def)
  have h2: "Some p1_item = Some p1_item" by simp
  show ?thesis
    using h1 h2 cart_scenario[of w0 Some p1_item p1_item "''c1''" 5]
    by (simp add: post_cart_def patch_cart_def delete_cart_item_def get_cart_def addCartItem_def
          updateCartItemQuantity_def removeCartItem_def getCartItems_def Let_def
          num_gt_def numToString_3 natToString_3 w0_def MemStorage_new_def p1_item_def c1_item_def)
qed

section \<open>What each step of the webhook processor changes\<close>

lemmas world_ops = emit_def console_log_def console_error_def processedEvents_add_def

lemma isEventProcessed_frame:
  "storage (fst (isEventProcessed sf w e)) = storage w"
  "db (fst (isEventProcessed sf w e)) = db w"
  "trace (fst (isEventProcessed sf w e)) = trace w"
  by (simp_all add: isEventProcessed_def world_ops split: option.splits)

lemma isEventProcessed_recorded: "\<not> sf \<Longrightarrow> snd (isEventProcessed sf w e) = recorded w e"
  by (simp add: isEventProcessed_def recorded_def split: option.splits)

lemma markEventProcessed_trace: "trace (markEventProcessed b w e) = trace w @ [LedgerMarked e]"
  by (simp add: markEventProcessed_def world_ops split: option.splits)

lemma markEventProcessed_store:
  "orders (storage (markEventProcessed b w e)) = orders (storage w)"
  "orderCounter (storage (markEventProcessed b w e)) = orderCounter (storage w)"
  "cartItems (storage (markEventProcessed b w e)) = cartItems (storage w)"
  "donations (storage (markEventProcessed b w e)) = donations (storage w)"
  by (simp_all add: markEventProcessed_def world_ops split: option.splits)

lemma markEventProcessed_recorded: "\<not> b \<Longrightarrow> recorded (markEventProcessed b w e) e"
  by (simp add: markEventProcessed_def recorded_def world_ops set_add_def split: option.splits)

lemma markEventProcessed_held: "held (markEventProcessed b w e) e"
  by (simp add: markEventProcessed_def held_def world_ops set_add_def split: option.splits)

lemma markEventProcessed_records:
  "\<not> b \<Longrightarrow> ledger_records w e = 0 \<Longrightarrow> ledger_records (markEventProcessed b w e) e = 1"
  by (auto simp: markEventProcessed_def ledger_records_def world_ops set_add_def
        count_list_0_iff split: option.splits)

lemma sendOrderConfirmation_frame:
  "storage (fst (sendOrderConfirmation f n c w)) = storage w"
  "db (fst (sendOrderConfirmation f n c w)) = db w"
  "filter is_order_created (trace (fst (sendOrderConfirmation f n c w))) =
     filter is_order_created (trace w)"
  by (simp_all add: sendOrderConfirmation_def sendEmail_def world_ops Let_def)

lemma fetchPaymentMethod_frame:
  "storage (fst (fetchPaymentMethod env session w)) = storage w"
  "db (fst (fetchPaymentMethod env session w)) = db w"
  "filter is_order_created (trace (fst (fetchPaymentMethod env session w))) =
     filter is_order_created (trace w)"
  by (simp_all add: fetchPaymentMethod_def world_ops Let_def split: option.splits)

lemma fetchPaymentMethod_result:
  "snd (fetchPaymentMethod env session w) = None
     \<longleftrightarrow> str_truthy (payment_intent session) \<and> paymentIntents_retrieve env = None"
  by (simp add: fetchPaymentMethod_def Let_def split: option.splits)

lemma createOrder_frame:
  "processedEvents (fst (createOrder s ins u n)) = processedEvents s"
  by (simp add: createOrder_def generateOrderNumber_def Let_def)

lemma completeCheckout_frame:
  "db (fst (completeCheckout env session w)) = db w"
  "processedEvents (storage (fst (completeCheckout env session w))) = processedEvents (storage w)"
  by (simp_all add: completeCheckout_def Let_def case_prod_beta sendOrderConfirmation_frame
        fetchPaymentMethod_frame createOrder_frame world_ops split: option.splits)

lemma completeCheckout_orders_created:
  "orders_created (fst (completeCheckout env session w)) =
     orders_created w + (if snd (fetchPaymentMethod env session w) = None then 0 else 1)"
  by (simp add: completeCheckout_def orders_created_def Let_def case_prod_beta
        sendOrderConfirmation_frame fetchPaymentMethod_frame world_ops split: option.splits)

lemma isEventProcessed_reliable:
  "db w = None \<or> \<not> sf \<Longrightarrow> snd (isEventProcessed sf w e) = recorded w e"
  by (auto simp: isEventProcessed_def recorded_def split: option.splits)

lemma markEventProcessed_reliable:
  "db w = None \<or> \<not> b \<Longrightarrow> recorded (markEventProcessed b w e) e"
  by (auto simp: markEventProcessed_def recorded_def world_ops set_add_def split: option.splits)

lemma markEventProcessed_one_record:
  "db w = None \<or> \<not> b \<Longrightarrow> ledger_records w e = 0
     \<Longrightarrow> ledger_records (markEventProcessed b w e) e = 1"
  by (auto simp: markEventProcessed_def ledger_records_def world_ops set_add_def
        count_list_0_iff split: option.splits)

lemma markEventProcessed_db_None: "db w = None \<Longrightarrow> db (markEventProcessed b w e) = None"
  by (simp add: markEventProcessed_def world_ops)

lemma recorded_cong:
  "db w' = db w \<Longrightarrow> processedEvents (storage w') = processedEvents (storage w)
     \<Longrightarrow> recorded w' e = recorded w e"
  by (simp add: recorded_def split: option.splits)

lemma held_cong:
  "db w' = db w \<Longrightarrow> processedEvents (storage w') = processedEvents (storage w)
     \<Longrightarrow> held w' e = held w e"
  by (simp add: held_def split: option.splits)

lemma ledger_records_cong:
  "db w' = db w \<Longrightarrow> processedEvents (storage w') = processedEvents (storage w)
     \<Longrightarrow> ledger_records w' e = ledger_records w e"
  by (simp add: ledger_records_def split: option.splits)

lemma fresh_not_recorded: "ledger_records w e = 0 \<Longrightarrow> \<not> recorded w e"
  by (auto simp: ledger_records_def recorded_def count_list_0_iff split: option.splits)

lemma orders_created_console:
  "orders_created (console_error l x) = orders_created x"
  "orders_created (console_log l x) = orders_created x"
  by (simp_all add: orders_created_def world_ops)

section \<open>The three courses of a delivery\<close>

lemma handle_duplicate:
  assumes "verified cfg sig env ev" and "snd (isEventProcessed (selectFails env) w (event_id ev))"
  shows "handleStripeWebhook cfg sig env w =
           (console_log (''Event '' @ event_id ev @ '' already processed, skipping'')
              (fst (isEventProcessed (selectFails env) w (event_id ev))),
            duplicate_ack)"
  using assms
  by (simp add: handleStripeWebhook_def verified_def case_prod_beta Let_def duplicate_ack_def)

lemma handle_new:
  assumes "verified cfg sig env ev" and "\<not> snd (isEventProcessed (selectFails env) w (event_id ev))"
  shows "handleStripeWebhook cfg sig env w =
           (let w2 = markEventProcessed (insertFails env)
                       (fst (isEventProcessed (selectFails env) w (event_id ev))) (event_id ev)
            in if event_type ev = ''checkout.session.completed'' then
                 (if snd (completeCheckout env (event_object ev) w2)
                  then (fst (completeCheckout env (event_object ev) w2), Json 200 (ReceivedBody None))
                  else (console_error ''Webhook handler error:''
                          (fst (completeCheckout env (event_object ev) w2)),
                        Json 500 (ErrorBody ''Webhook handler failed'')))
               else (w2, Json 200 (ReceivedBody None)))"
  using assms
  by (simp add: handleStripeWebhook_def verified_def case_prod_beta Let_def split: bool.splits)

lemma handle_rejected:
  "\<not> verified cfg sig env ev \<Longrightarrow> constructEvent env = Inr ev
     \<Longrightarrow> trace (fst (handleStripeWebhook cfg sig env w)) = trace w"
  by (auto simp: handleStripeWebhook_def verified_def world_ops)

section \<open>Redelivery\<close>

text \<open>Once the ledger holds the event, every further delivery is a duplicate and changes neither store, table nor trace.\<close>

lemma deliveries_recorded:
  assumes "\<forall>env \<in> set envs. verified cfg sig env ev \<and> ledger_reliable w env"
      and "recorded w (event_id ev)"
  shows "storage (fst (deliveries cfg sig envs w)) = storage w
         \<and> db (fst (deliveries cfg sig envs w)) = db w
         \<and> trace (fst (deliveries cfg sig envs w)) = trace w
         \<and> snd (deliveries cfg sig envs w) = replicate (length envs) duplicate_ack"
  using assms
proof (induction envs arbitrary: w)
  case Nil
  then show ?case by simp
next
  case (Cons env envs)
  have v: "verified cfg sig env ev" and rel: "db w = None \<or> \<not> selectFails env"
    using Cons.prems(1) by (auto simp: ledger_reliable_def)
  have found: "snd (isEventProcessed (selectFails env) w (event_id ev))"
    using rel Cons.prems(2) by (simp add: isEventProcessed_reliable)
  define w1 where "w1 = fst (handleStripeWebhook cfg sig env w)"
  note h = handle_duplicate[OF v found]
  have same: "storage w1 = storage w" "db w1 = db w" "trace w1 = trace w"
    unfolding w1_def h by (simp_all add: console_log_def isEventProcessed_frame)
  have rec1: "recorded w1 (event_id ev)"
    using Cons.prems(2) same by (simp add: recorded_cong[of w1 w])
  have rest: "\<forall>env \<in> set envs. verified cfg sig env ev \<and> ledger_reliable w1 env"
    using Cons.prems(1) same by (simp add: ledger_reliable_def)
  have ih: "storage (fst (deliveries cfg sig envs w1)) = storage w1
         \<and> db (fst (deliveries cfg sig envs w1)) = db w1
         \<and> trace (fst (deliveries cfg sig envs w1)) = trace w1
         \<and> snd (deliveries cfg sig envs w1) = replicate (length envs) duplicate_ack"
    by (rule Cons.IH[OF rest rec1])
  have r: "snd (handleStripeWebhook cfg sig env w) = duplicate_ack" using h by simp
  show ?case
    using ih same r by (simp add: case_prod_beta Let_def w1_def[symmetric])
qed

text \<open>
  Redelivery in a row to a ledger whose calls succeed. The same verified event is
  delivered one or more times, one delivery after the other, to a ledger that does not
  hold it yet, the ledger being the in-memory set or a table whose calls succeed. Then
  at most one order is created; exactly one when the event is
  \<^verbatim>\<open>checkout.session.completed\<close> and the first delivery's look-up of the payment
  intent does not throw, none otherwise; the ledger holds exactly one record of the
  event; and every delivery after the first is answered as a duplicate.
\<close>

theorem one_order_per_event:
  assumes all: "\<forall>e \<in> set (env # envs). verified cfg sig e ev \<and> ledger_reliable w e"
      and fresh: "ledger_records w (event_id ev) = 0"
  shows "let (w', rs) = deliveries cfg sig (env # envs) w
         in orders_created w' \<le> orders_created w + 1
            \<and> (orders_created w' = orders_created w + 1 \<longleftrightarrow>
                 event_type ev = ''checkout.session.completed''
                 \<and> \<not> (str_truthy (payment_intent (event_object ev))
                        \<and> paymentIntents_retrieve env = None))
            \<and> ledger_records w' (event_id ev) = 1
            \<and> tl rs = replicate (length envs) duplicate_ack"
proof -
  have v: "verified cfg sig env ev"
    and sf: "db w = None \<or> \<not> selectFails env" and inf: "db w = None \<or> \<not> insertFails env"
    using all by (auto simp: ledger_reliable_def)
  have notfound: "\<not> snd (isEventProcessed (selectFails env) w (event_id ev))"
    using sf fresh by (simp add: isEventProcessed_reliable fresh_not_recorded)
  define wi where "wi = fst (isEventProcessed (selectFails env) w (event_id ev))"
  define w2 where "w2 = markEventProcessed (insertFails env) wi (event_id ev)"
  define w1 where "w1 = fst (handleStripeWebhook cfg sig env w)"
  have wi: "storage wi = storage w" "db wi = db w" "trace wi = trace w"
    unfolding wi_def by (simp_all add: isEventProcessed_frame)
  have fresh_i: "ledger_records wi (event_id ev) = 0"
    using fresh wi by (simp add: ledger_records_cong[of wi w])
  have inf_i: "db wi = None \<or> \<not> insertFails env" using inf wi by simp
  have rec2: "recorded w2 (event_id ev)"
    unfolding w2_def using inf_i by (rule markEventProcessed_reliable)
  have cnt2: "ledger_records w2 (event_id ev) = 1"
    unfolding w2_def using inf_i fresh_i by (rule markEventProcessed_one_record)
  have db2: "db w = None \<Longrightarrow> db w2 = None"
    unfolding w2_def using wi by (simp add: markEventProcessed_db_None)
  have oc2: "orders_created w2 = orders_created w"
    unfolding w2_def by (simp add: orders_created_def markEventProcessed_trace wi)
  have h: "handleStripeWebhook cfg sig env w =
           (if event_type ev = ''checkout.session.completed'' then
                 (if snd (completeCheckout env (event_object ev) w2)
                  then (fst (completeCheckout env (event_object ev) w2), Json 200 (ReceivedBody None))
                  else (console_error ''Webhook handler error:''
                          (fst (completeCheckout env (event_object ev) w2)),
                        Json 500 (ErrorBody ''Webhook handler failed'')))
               else (w2, Json 200 (ReceivedBody None)))"
    using handle_new[OF v notfound] by (simp add: Let_def w2_def wi_def)
  have db1: "db w1 = db w2" and pe1: "processedEvents (storage w1) = processedEvents (storage w2)"
    unfolding w1_def h by (simp_all add: completeCheckout_frame console_error_def)
  have oc1: "orders_created w1 = orders_created w +
               (if event_type ev = ''checkout.session.completed''
                   \<and> \<not> (str_truthy (payment_intent (event_object ev))
                          \<and> paymentIntents_retrieve env = None) then 1 else 0)"
    unfolding w1_def h using oc2
    by (simp add: completeCheckout_orders_created fetchPaymentMethod_result
          orders_created_console)
  have rec1: "recorded w1 (event_id ev)"
    using rec2 db1 pe1 by (simp add: recorded_cong[of w1 w2])
  have cnt1: "ledger_records w1 (event_id ev) = 1"
    using cnt2 db1 pe1 by (simp add: ledger_records_cong[of w1 w2])
  have rest: "\<forall>e \<in> set envs. verified cfg sig e ev \<and> ledger_reliable w1 e"
    using all db1 db2 by (auto simp: ledger_reliable_def)
  note later = deliveries_recorded[OF rest rec1]
  have ocf: "orders_created (fst (deliveries cfg sig envs w1)) = orders_created w1"
    using later by (simp add: orders_created_def)
  have cntf: "ledger_records (fst (deliveries cfg sig envs w1)) (event_id ev) = 1"
    using later cnt1 by (simp add: ledger_records_cong[of "fst (deliveries cfg sig envs w1)" w1])
  show ?thesis
    using ocf cntf oc1 later
    by (simp add: case_prod_beta Let_def w1_def[symmetric])
qed

section \<open>Evaluating the handlers\<close>

lemmas handler_defs = handleStripeWebhook_def isEventProcessed_def markEventProcessed_def
  completeCheckout_def fetchPaymentMethod_def paymentMethodType_def orderData_def
  sendOrderConfirmation_def sendEmail_def createOrder_def generateOrderNumber_def
  world_ops set_add_def or_default_def or_else_def Let_def orders_created_def

lemmas input_defs = cfg_live_def env_ok_def env_retrieve_throws_def env_mail_fails_def event1_def
  session1_def apple_intent_def w0_def MemStorage_new_def

lemma natToString_20: "natToString 20 = ''20''"
  by code_simp

text \<open>
  Marked, never completed: the first delivery of a verified
  \<^verbatim>\<open>checkout.session.completed\<close> event marks the ledger, the look-up of the payment
  intent throws and the handler answers 500; the redelivery is a duplicate. Two
  deliveries, no order.
\<close>

theorem one_order_per_event_counterexample:
  "verified cfg_live (Some ''t=1,v1=ab'') env_retrieve_throws event1
   \<and> verified cfg_live (Some ''t=1,v1=ab'') env_ok event1
   \<and> ledger_records w0 ''evt_1'' = 0
   \<and> orders_created (fst (deliveries cfg_live (Some ''t=1,v1=ab'') [env_retrieve_throws, env_ok] w0)) = 0
   \<and> snd (deliveries cfg_live (Some ''t=1,v1=ab'') [env_retrieve_throws, env_ok] w0) =
       [Json 500 (ErrorBody ''Webhook handler failed''), duplicate_ack]"
  by (simp add: handler_defs input_defs duplicate_ack_def verified_def ledger_records_def)

lemma first_delivery:
  "handleStripeWebhook cfg_live (Some ''t=1,v1=ab'') env_ok w0 = (w_once, Json 200 (ReceivedBody None))"
  by (simp add: handler_defs input_defs w_once_def natToString_1001 natToString_20)

lemma second_delivery:
  "handleStripeWebhook cfg_live (Some ''t=1,v1=ab'') env_ok w_once =
     (console_log ''Event evt_1 already processed, skipping'' w_once, duplicate_ack)"
  by (simp add: handleStripeWebhook_def isEventProcessed_def Let_def input_defs w_once_def
        duplicate_ack_def)

theorem one_order_per_event_witness:
  "verified cfg_live (Some ''t=1,v1=ab'') env_ok event1
   \<and> ledger_reliable w0 env_ok
   \<and> ledger_records w0 (event_id event1) = 0
   \<and> (let (w', rs) = deliveries cfg_live (Some ''t=1,v1=ab'') [env_ok, env_ok] w0
       in orders_created w' = 1
          \<and> ledger_records w' ''evt_1'' = 1
          \<and> rs = [Json 200 (ReceivedBody None), duplicate_ack])"
proof -
  have h1: "\<forall>e \<in> set (env_ok # [env_ok]).
              verified cfg_live (Some ''t=1,v1=ab'') e event1 \<and> ledger_reliable w0 e"
    by (simp add: verified_def ledger_reliable_def input_defs)
  have h2: "ledger_records w0 (event_id event1) = 0"
    by (simp add: ledger_records_def input_defs)
  have run: "deliveries cfg_live (Some ''t=1,v1=ab'') [env_ok, env_ok] w0 =
               (console_log ''Event evt_1 already processed, skipping'' w_once,
                [Json 200 (ReceivedBody None), duplicate_ack])"
    by (simp add: first_delivery second_delivery)
  have vals: "orders_created (console_log ''Event evt_1 already processed, skipping'' w_once) = 1"
    "ledger_records (console_log ''Event evt_1 already processed, skipping'' w_once) ''evt_1'' = 1"
    "orders_created w0 = 0"
    by (simp_all add: orders_created_def ledger_records_def console_log_def w_once_def w0_def)
  show ?thesis
    using h1 h2 one_order_per_event[OF h1 h2] unfolding run
    by (simp add: vals)
qed

lemma fetchPaymentMethod_trace:
  "\<exists>es. trace (fst (fetchPaymentMethod env session w)) = trace w @ es"
  by (simp add: fetchPaymentMethod_def world_ops Let_def split: option.splits)

lemma sendOrderConfirmation_trace:
  "\<exists>es. trace (fst (sendOrderConfirmation f n c w)) = trace w @ es"
  by (simp add: sendOrderConfirmation_def sendEmail_def world_ops Let_def)

lemma completeCheckout_trace:
  "\<exists>es. trace (fst (completeCheckout env session w)) = trace w @ es"
proof (cases "fetchPaymentMethod env session w")
  case (Pair w1 r)
  obtain e1 where e1: "trace w1 = trace w @ e1"
    using fetchPaymentMethod_trace[of env session w] Pair by auto
  show ?thesis
  proof (cases r)
    case None
    then show ?thesis using Pair e1 by (simp add: completeCheckout_def)
  next
    case (Some pmt)
    define s' where "s' = fst (createOrder (storage w1) (orderData session pmt) (randomUUID env) (date_now env))"
    define ord where "ord = snd (createOrder (storage w1) (orderData session pmt) (randomUUID env) (date_now env))"
    define w2 where "w2 = emit (OrderCreated (orderNumber ord)) (w1\<lparr>storage := s'\<rparr>)"
    obtain e2 where e2: "trace (fst (sendOrderConfirmation (sendFails env) (orderNumber ord)
                                       (customerEmail (orderData session pmt)) w2)) = trace w2 @ e2"
      using sendOrderConfirmation_trace by blast
    have t2: "trace w2 = trace w @ e1 @ [OrderCreated (orderNumber ord)]"
      unfolding w2_def using e1 by (simp add: emit_def)
    show ?thesis
      using Pair Some e2 t2
      by (simp add: completeCheckout_def Let_def case_prod_beta s'_def[symmetric]
            ord_def[symmetric] w2_def[symmetric] console_log_def)
  qed
qed

lemma handle_trace:
  assumes "constructEvent env = Inr ev"
  shows "trace (fst (handleStripeWebhook cfg sig env w)) = trace w
         \<or> (\<exists>es. trace (fst (handleStripeWebhook cfg sig env w)) = trace w @ LedgerMarked (event_id ev) # es
                 \<and> held (fst (handleStripeWebhook cfg sig env w)) (event_id ev))"
proof (cases "verified cfg sig env ev")
  case False
  then show ?thesis using assms by (simp add: handle_rejected)
next
  case True
  show ?thesis
  proof (cases "snd (isEventProcessed (selectFails env) w (event_id ev))")
    case found: True
    show ?thesis
      unfolding handle_duplicate[OF True found]
      by (simp add: console_log_def isEventProcessed_frame)
  next
    case notfound: False
    define w2 where "w2 = markEventProcessed (insertFails env)
                            (fst (isEventProcessed (selectFails env) w (event_id ev))) (event_id ev)"
    have t2: "trace w2 = trace w @ [LedgerMarked (event_id ev)]"
      unfolding w2_def by (simp add: markEventProcessed_trace isEventProcessed_frame)
    have h2: "held w2 (event_id ev)" unfolding w2_def by (rule markEventProcessed_held)
    obtain es where es: "trace (fst (completeCheckout env (event_object ev) w2)) = trace w2 @ es"
      using completeCheckout_trace by blast
    have h3: "held (fst (completeCheckout env (event_object ev) w2)) (event_id ev)"
      using h2 by (simp add: held_cong[of "fst (completeCheckout env (event_object ev) w2)" w2]
                     completeCheckout_frame)
    have h3': "held (console_error ''Webhook handler error:''
                        (fst (completeCheckout env (event_object ev) w2))) (event_id ev)"
      using h3 by (simp add: held_def console_error_def)
    show ?thesis
      unfolding handle_new[OF True notfound] w2_def[symmetric] Let_def
      using t2 es h2 h3 h3' by (auto simp: console_error_def)
  qed
qed

section \<open>Order of the ledger mark; duplicates\<close>

lemma handle_new_trace:
  assumes "constructEvent env = Inr ev"
  shows "let new = drop (length (trace w)) (trace (fst (handleStripeWebhook cfg sig env w)))
         in (new = [] \<or> hd new = LedgerMarked (event_id ev)) \<and> marked_first (event_id ev) new
            \<and> (new = [] \<or> held (fst (handleStripeWebhook cfg sig env w)) (event_id ev))"
  using handle_trace[OF assms, of cfg sig w] by (auto simp: Let_def)

lemma donation_trace:
  "let new = drop (length (trace w)) (trace (fst (donation_success parse denv (QString sid) w)))
   in new = []
      \<or> new = [StripeCall ''checkout.sessions.retrieve'']
      \<or> new = [StripeCall ''checkout.sessions.retrieve'', DonationCreated (donation_randomUUID denv),
                LedgerMarked (''donation_'' @ sid)]"
  by (simp add: donation_success_def Let_def case_prod_beta isEventProcessed_frame
        markEventProcessed_trace createDonation_def world_ops split: option.splits)

text \<open>
  C2, as the code has it. A delivery to the webhook processor either adds nothing to
  the trace (it was rejected or a duplicate), or what it adds starts with the ledger
  mark of its event, so the mark comes before every order and email, and the ledger
  then holds the event. A visit of the donation redirect adds nothing, or only the
  retrieval of the session, or the retrieval, then the donation record, then the
  ledger mark of the session: there the record is created first and the mark follows.
\<close>

theorem ledger_mark_order:
  "(constructEvent env = Inr ev \<longrightarrow>
      (let w' = fst (handleStripeWebhook cfg sig env w);
           new = drop (length (trace w)) (trace w')
       in (new = [] \<or> hd new = LedgerMarked (event_id ev))
          \<and> marked_first (event_id ev) new
          \<and> (new = [] \<or> held w' (event_id ev))))
   \<and> (let new = drop (length (trace w)) (trace (fst (donation_success parse denv (QString sid) w)))
      in new = []
         \<or> new = [StripeCall ''checkout.sessions.retrieve'']
         \<or> new = [StripeCall ''checkout.sessions.retrieve'',
                   DonationCreated (donation_randomUUID denv),
                   LedgerMarked (''donation_'' @ sid)])"
  using handle_new_trace[of env ev w cfg sig] donation_trace[of w parse denv sid]
  by (simp add: Let_def)

lemmas donation_inputs = donation_env1_def donation_session1_def session1_def w0_def MemStorage_new_def

lemma donation_run:
  "donation_success Some donation_env1 (QString ''s1'') w0 =
     (\<lparr>storage = MemStorage_new\<lparr>donations :=
           [(''d1'', \<lparr>donation_donorName = ''Ada'', donation_donorEmail = ''ada@example.org'',
                    donation_amount = ''20.00'', donation_message = Some [],
                    donation_id = ''d1'', donation_createdAt = 9\<rparr>)],
         processedEvents := [''donation_s1'']\<rparr>,
       db = None,
       trace = [StripeCall ''checkout.sessions.retrieve'', DonationCreated ''d1'',
                LedgerMarked ''donation_s1''],
       console = []\<rparr>,
      Redirect ''/?donation_success=true'')"
  by (simp add: donation_success_def isEventProcessed_def markEventProcessed_def createDonation_def
        world_ops set_add_def or_default_def toFixed2_def natToString_20 digit_char_def Let_def
        donation_inputs)

text \<open>
  The claim as stated fails on the donation redirect: for a paid donation session the
  donation record is created before the ledger is marked.
\<close>

theorem ledger_mark_order_counterexample:
  "snd (donation_success Some donation_env1 (QString ''s1'') w0) = Redirect ''/?donation_success=true''
   \<and> trace (fst (donation_success Some donation_env1 (QString ''s1'') w0)) =
       [StripeCall ''checkout.sessions.retrieve'', DonationCreated ''d1'', LedgerMarked ''donation_s1'']
   \<and> \<not> marked_first ''donation_s1'' (trace (fst (donation_success Some donation_env1 (QString ''s1'') w0)))"
  by (simp add: donation_run)

theorem ledger_mark_order_witness:
  "constructEvent env_ok = Inr event1
   \<and> drop (length (trace w0)) (trace (fst (handleStripeWebhook cfg_live (Some ''t=1,v1=ab'') env_ok w0))) =
       [LedgerMarked ''evt_1'', StripeCall ''paymentIntents.retrieve'', OrderCreated ''ORD-1001'',
        EmailSent ''ada@example.org'' ''Order Confirmation #ORD-1001 - Project V8'',
        EmailSent ''allouzimohammed53@gmail.com'' ''New Order #ORD-1001 - Project V8'',
        EmailSent ''orders@driftv8.xyz'' ''New Order #ORD-1001 - Project V8'']
   \<and> marked_first (event_id event1)
        (drop (length (trace w0)) (trace (fst (handleStripeWebhook cfg_live (Some ''t=1,v1=ab'') env_ok w0))))
   \<and> held (fst (handleStripeWebhook cfg_live (Some ''t=1,v1=ab'') env_ok w0)) (event_id event1)"
proof -
  have h: "constructEvent env_ok = Inr event1" by (simp add: env_ok_def)
  show ?thesis
    using h ledger_mark_order[of env_ok event1 cfg_live "Some ''t=1,v1=ab''" w0 Some donation_env1 "''s1''"]
    unfolding first_delivery donation_run
    by (simp add: w_once_def w0_def event1_def held_def)
qed

text \<open>
  The duplicate branch. When the ledger's check answers that it found the identifier,
  a verified webhook delivery is answered 200 with \<^verbatim>\<open>received: true\<close> and the
  message that the event was already processed, and a donation redirect goes to the
  success indicator; in both, store, table and trace are as before: no order, no
  donation, no email, no call to the provider. The check finds every identifier the
  ledger holds when there is no database or its query succeeds.
\<close>

theorem duplicate_is_acknowledged:
  "(verified cfg sig env ev \<and> snd (isEventProcessed (selectFails env) w (event_id ev)) \<longrightarrow>
      (let (w', r) = handleStripeWebhook cfg sig env w
       in r = Json 200 (ReceivedBody (Some ''Event already processed''))
          \<and> storage w' = storage w \<and> db w' = db w \<and> trace w' = trace w))
   \<and> (sid \<noteq> [] \<and> snd (isEventProcessed (donation_selectFails denv) w (''donation_'' @ sid)) \<longrightarrow>
      (let (w', r) = donation_success parse denv (QString sid) w
       in r = Redirect ''/?donation_success=true''
          \<and> storage w' = storage w \<and> db w' = db w \<and> trace w' = trace w))
   \<and> (recorded w e \<and> (db w = None \<or> \<not> sf) \<longrightarrow> snd (isEventProcessed sf w e))"
proof (intro conjI impI)
  assume a: "verified cfg sig env ev \<and> snd (isEventProcessed (selectFails env) w (event_id ev))"
  then have v: "verified cfg sig env ev"
    and f: "snd (isEventProcessed (selectFails env) w (event_id ev))" by simp_all
  show "let (w', r) = handleStripeWebhook cfg sig env w
        in r = Json 200 (ReceivedBody (Some ''Event already processed''))
           \<and> storage w' = storage w \<and> db w' = db w \<and> trace w' = trace w"
    unfolding handle_duplicate[OF v f]
    by (simp add: duplicate_ack_def console_log_def isEventProcessed_frame)
next
  assume "sid \<noteq> [] \<and> snd (isEventProcessed (donation_selectFails denv) w (''donation_'' @ sid))"
  then show "let (w', r) = donation_success parse denv (QString sid) w
       in r = Redirect ''/?donation_success=true''
          \<and> storage w' = storage w \<and> db w' = db w \<and> trace w' = trace w"
    by (simp add: donation_success_def Let_def case_prod_beta isEventProcessed_frame)
next
  assume "recorded w e \<and> (db w = None \<or> \<not> sf)"
  then show "snd (isEventProcessed sf w e)" by (simp add: isEventProcessed_reliable)
qed

theorem duplicate_is_acknowledged_witness:
  "verified cfg_live (Some ''t=1,v1=ab'') env_ok event1
   \<and> snd (isEventProcessed (selectFails env_ok) w_marked (event_id event1))
   \<and> snd (isEventProcessed (donation_selectFails donation_env1) w_marked (''donation_'' @ ''s1''))
   \<and> recorded w_marked ''evt_1''
   \<and> handleStripeWebhook cfg_live (Some ''t=1,v1=ab'') env_ok w_marked =
       (console_log ''Event evt_1 already processed, skipping'' w_marked, duplicate_ack)
   \<and> donation_success Some donation_env1 (QString ''s1'') w_marked =
       (w_marked, Redirect ''/?donation_success=true'')"
  using duplicate_is_acknowledged[of cfg_live "Some ''t=1,v1=ab''" env_ok event1 w_marked "''s1''"
          donation_env1 Some "''evt_1''" False]
  by (simp add: handleStripeWebhook_def donation_success_def isEventProcessed_def verified_def
        recorded_def duplicate_ack_def Let_def w_marked_def input_defs donation_env1_def)

section \<open>Notification failure, payment labels, checkout amounts\<close>

lemma held_console:
  "held (console_error l x) e = held x e"
  "held (console_log l x) e = held x e"
  by (simp_all add: held_def world_ops)

lemma console_error_fields:
  "console (console_error l x) = console x @ [l]"
  "storage (console_error l x) = storage x"
  "db (console_error l x) = db x"
  "trace (console_error l x) = trace x"
  by (simp_all add: console_error_def)

lemma completeCheckout_mail_fails:
  assumes ok: "\<not> (str_truthy (payment_intent session) \<and> paymentIntents_retrieve env = None)"
      and fails: "sendFails env 0 \<or> sendFails env 1 \<or> sendFails env 2"
  shows "\<not> snd (completeCheckout env session w)
         \<and> ''Failed to send email:'' \<in> set (console (fst (completeCheckout env session w)))
         \<and> orderCounter (storage (fst (completeCheckout env session w))) = Suc (orderCounter (storage w))
         \<and> map_option orderNumber (map_of (orders (storage (fst (completeCheckout env session w))))
              (randomUUID env)) = Some (''ORD-'' @ natToString (Suc (orderCounter (storage w))))"
proof (cases "fetchPaymentMethod env session w")
  case (Pair w1 r)
  have "snd (fetchPaymentMethod env session w) \<noteq> None"
    using ok by (simp add: fetchPaymentMethod_result)
  then obtain pmt where r: "r = Some pmt" using Pair by auto
  have st: "storage w1 = storage w"
    using fetchPaymentMethod_frame(1)[of env session w] Pair by simp
  define ord where "ord = snd (createOrder (storage w) (orderData session pmt) (randomUUID env) (date_now env))"
  define s' where "s' = fst (createOrder (storage w) (orderData session pmt) (randomUUID env) (date_now env))"
  define w2 where "w2 = emit (OrderCreated (orderNumber ord)) (w1\<lparr>storage := s'\<rparr>)"
  define res where "res = sendOrderConfirmation (sendFails env) (orderNumber ord)
                            (customerEmail (orderData session pmt)) w2"
  have cc: "completeCheckout env session w =
              (if snd res then
                 (console_log (''Order '' @ orderNumber ord @ '' created from Stripe payment ''
                               @ session_id session @ '' using '' @ pmt) (fst res), True)
               else (fst res, False))"
    using Pair r st
    by (simp add: completeCheckout_def Let_def case_prod_beta ord_def s'_def w2_def res_def)
  have failed: "\<not> snd res" and logged: "''Failed to send email:'' \<in> set (console (fst res))"
    using fails unfolding res_def
    by (auto simp: sendOrderConfirmation_def sendEmail_def world_ops Let_def)
  have stores: "storage (fst res) = s'"
    unfolding res_def by (simp add: sendOrderConfirmation_frame w2_def emit_def)
  have cnt: "orderCounter s' = Suc (orderCounter (storage w))"
    unfolding s'_def by (rule createOrder_counter)
  have num: "map_option orderNumber (map_of (orders s') (randomUUID env)) =
               Some (''ORD-'' @ natToString (Suc (orderCounter (storage w))))"
    unfolding s'_def by (simp add: createOrder_orders update_conv' createOrder_number)
  show ?thesis
    unfolding cc using failed logged stores cnt num by simp
qed

text \<open>
  C4, as the code has it. A verified, new \<^verbatim>\<open>checkout.session.completed\<close> delivery
  whose payment-intent look-up does not throw creates its order; when one of the three
  sends then fails, \<open>sendEmail\<close> logs the failure and throws again, nothing catches
  it before the handler's outer \<^verbatim>\<open>catch\<close>, which logs it and answers 500 with
  \<^verbatim>\<open>Webhook handler failed\<close>. The order stays in the store under its new number,
  and the ledger keeps the event.
\<close>

theorem notification_failure:
  assumes "verified cfg sig env ev"
      and "\<not> snd (isEventProcessed (selectFails env) w (event_id ev))"
      and "event_type ev = ''checkout.session.completed''"
      and "\<not> (str_truthy (payment_intent (event_object ev)) \<and> paymentIntents_retrieve env = None)"
      and "sendFails env 0 \<or> sendFails env 1 \<or> sendFails env 2"
  shows "let (w', r) = handleStripeWebhook cfg sig env w
         in r = Json 500 (ErrorBody ''Webhook handler failed'')
            \<and> orders_created w' = orders_created w + 1
            \<and> map_option orderNumber (map_of (orders (storage w')) (randomUUID env)) =
                Some (''ORD-'' @ natToString (orderCounter (storage w) + 1))
            \<and> ''Failed to send email:'' \<in> set (console w')
            \<and> ''Webhook handler error:'' \<in> set (console w')
            \<and> held w' (event_id ev)"
proof -
  define w2 where "w2 = markEventProcessed (insertFails env)
                          (fst (isEventProcessed (selectFails env) w (event_id ev))) (event_id ev)"
  define w3 where "w3 = fst (completeCheckout env (event_object ev) w2)"
  note mf = completeCheckout_mail_fails[OF assms(4) assms(5), of w2]
  have h: "handleStripeWebhook cfg sig env w =
             (console_error ''Webhook handler error:'' w3, Json 500 (ErrorBody ''Webhook handler failed''))"
    using handle_new[OF assms(1) assms(2)] assms(3) mf
    by (simp add: Let_def w2_def w3_def)
  have c2: "orderCounter (storage w2) = orderCounter (storage w)"
    unfolding w2_def by (simp add: markEventProcessed_store isEventProcessed_frame)
  have oc2: "orders_created w2 = orders_created w"
    unfolding w2_def by (simp add: orders_created_def markEventProcessed_trace isEventProcessed_frame)
  have oc3: "orders_created w3 = orders_created w + 1"
    unfolding w3_def using assms(4) oc2
    by (simp add: completeCheckout_orders_created fetchPaymentMethod_result)
  have h2: "held w2 (event_id ev)" unfolding w2_def by (rule markEventProcessed_held)
  have h3: "held w3 (event_id ev)"
    using h2 unfolding w3_def
    by (simp add: held_cong[of "fst (completeCheckout env (event_object ev) w2)" w2]
          completeCheckout_frame)
  have h3': "held (console_error ''Webhook handler error:'' w3) (event_id ev)"
    using h3 by (simp add: held_console)
  show ?thesis
    unfolding h using mf c2 oc3 h3'
    by (simp add: w3_def[symmetric] orders_created_console console_error_fields)
qed


text \<open>
  The claim as stated fails: the send to the customer fails, the order exists, and
  the response is the 500 failure, not a success acknowledgment.
\<close>

theorem notification_failure_counterexample:
  "verified cfg_live (Some ''t=1,v1=ab'') env_mail_fails event1
   \<and> sendFails env_mail_fails 0
   \<and> orders_created (fst (handleStripeWebhook cfg_live (Some ''t=1,v1=ab'') env_mail_fails w0)) = 1
   \<and> snd (handleStripeWebhook cfg_live (Some ''t=1,v1=ab'') env_mail_fails w0) =
       Json 500 (ErrorBody ''Webhook handler failed'')"
  by (simp add: handler_defs input_defs verified_def natToString_1001 natToString_20)

theorem notification_failure_witness:
  "verified cfg_live (Some ''t=1,v1=ab'') env_last_mail_fails event1
   \<and> \<not> snd (isEventProcessed (selectFails env_last_mail_fails) w0 (event_id event1))
   \<and> event_type event1 = ''checkout.session.completed''
   \<and> paymentIntents_retrieve env_last_mail_fails = Some apple_intent
   \<and> sendFails env_last_mail_fails 2
   \<and> snd (handleStripeWebhook cfg_live (Some ''t=1,v1=ab'') env_last_mail_fails w0) =
       Json 500 (ErrorBody ''Webhook handler failed'')
   \<and> map_option orderNumber
        (map_of (orders (storage (fst (handleStripeWebhook cfg_live (Some ''t=1,v1=ab'')
                                         env_last_mail_fails w0)))) ''u1'') = Some ''ORD-1001''"
proof -
  have h1: "verified cfg_live (Some ''t=1,v1=ab'') env_last_mail_fails event1"
    by (simp add: verified_def env_last_mail_fails_def input_defs)
  have h2: "\<not> snd (isEventProcessed (selectFails env_last_mail_fails) w0 (event_id event1))"
    by (simp add: isEventProcessed_def env_last_mail_fails_def input_defs)
  have h3: "event_type event1 = ''checkout.session.completed''" by (simp add: event1_def)
  have h4: "\<not> (str_truthy (payment_intent (event_object event1))
               \<and> paymentIntents_retrieve env_last_mail_fails = None)"
    by (simp add: env_last_mail_fails_def input_defs)
  have h5: "sendFails env_last_mail_fails 0 \<or> sendFails env_last_mail_fails 1
            \<or> sendFails env_last_mail_fails 2"
    by (simp add: env_last_mail_fails_def input_defs)
  have vals: "natToString (Suc (orderCounter (storage w0))) = ''1001''"
    "randomUUID env_last_mail_fails = ''u1''"
    "paymentIntents_retrieve env_last_mail_fails = Some apple_intent"
    "sendFails env_last_mail_fails 2"
    by (simp_all add: env_last_mail_fails_def input_defs natToString_1001)
  show ?thesis
    using h1 h2 h3 notification_failure[OF h1 h2 h3 h4 h5]
    by (simp add: case_prod_beta vals natToString_1001)
qed








section \<open>Where the ledger lets an event through twice\<close>

text \<open>
  The handler awaits the check and the mark as two calls. With a table, two
  deliveries of one event can both run the check before either marks; the second
  insert then throws the duplicate-key error, which \<open>markEventProcessed\<close> logs and
  swallows, and both deliveries go on to create an order.
\<close>

lemma interleaved_checks_two_orders:
  "(let (wa, pa) = isEventProcessed False w_db ''evt_1'';
        (wb, pb) = isEventProcessed False wa ''evt_1'';
        w1 = markEventProcessed False wb ''evt_1'';
        w2 = markEventProcessed False w1 ''evt_1'';
        w3 = fst (completeCheckout env_ok session1 w2);
        w4 = fst (completeCheckout env_second session1 w3)
    in \<not> pa \<and> \<not> pb \<and> db w4 = Some [''evt_1''] \<and> orders_created w4 = 2
       \<and> map fst (orders (storage w4)) = [''u1'', ''u2''])"
  by (simp add: handler_defs input_defs w_db_def env_second_def
        natToString_1001 natToString_1002 natToString_20)

text \<open>
  C1 fails on the code. The same verified \<^verbatim>\<open>checkout.session.completed\<close> event is
  delivered twice, one delivery after the other, to a process with a database whose
  table is empty. The insert of the first delivery fails, so \<open>markEventProcessed\<close>
  keeps the marker in the in-memory set only and the order is created. The query of the
  second delivery succeeds, reads the table, does not find the event, and the second
  delivery passes the duplicate check and creates a second order: both are answered
  200 with \<^verbatim>\<open>received: true\<close>.
\<close>

theorem memory_marker_not_found:
  "verified cfg_live (Some ''t=1,v1=ab'') env_insert_fails event1
   \<and> verified cfg_live (Some ''t=1,v1=ab'') env_second event1
   \<and> orders_created (fst (deliveries cfg_live (Some ''t=1,v1=ab'') [env_insert_fails, env_second] w_db)) = 2
   \<and> snd (deliveries cfg_live (Some ''t=1,v1=ab'') [env_insert_fails, env_second] w_db) =
       [Json 200 (ReceivedBody None), Json 200 (ReceivedBody None)]"
  by (simp add: handler_defs input_defs verified_def w_db_def env_insert_fails_def env_second_def
        natToString_1001 natToString_1002 natToString_20)

text \<open>
  C3 fails on the code. The table holds the event and the in-memory set is empty;
  the query of the delivery throws, \<open>isEventProcessed\<close> falls back to the in-memory
  set and does not find the event: the delivery is not answered as a duplicate and
  creates an order. On the donation redirect, the insert of the first visit fails, the
  marker of the session is kept in memory only, and the second visit, whose query
  succeeds, reads the table and creates a second donation record.
\<close>

theorem recorded_identifier_processed_again:
  "recorded w_table ''evt_1''
   \<and> verified cfg_live (Some ''t=1,v1=ab'') env_select_fails event1
   \<and> snd (handleStripeWebhook cfg_live (Some ''t=1,v1=ab'') env_select_fails w_table) =
       Json 200 (ReceivedBody None)
   \<and> orders_created (fst (handleStripeWebhook cfg_live (Some ''t=1,v1=ab'') env_select_fails w_table)) = 1
   \<and> map fst (orders (storage (fst (handleStripeWebhook cfg_live (Some ''t=1,v1=ab'')
                                        env_select_fails w_table)))) = [''u1'']
   \<and> held (fst (donation_success Some donation_env_insert_fails (QString ''s1'') w_db)) ''donation_s1''
   \<and> snd (donation_success Some donation_env2 (QString ''s1'')
            (fst (donation_success Some donation_env_insert_fails (QString ''s1'') w_db))) =
       Redirect ''/?donation_success=true''
   \<and> map fst (donations (storage (fst (donation_success Some donation_env2 (QString ''s1'')
            (fst (donation_success Some donation_env_insert_fails (QString ''s1'') w_db)))))) =
       [''d1'', ''d2'']"
  by (simp add: handler_defs input_defs verified_def recorded_def held_def w_table_def w_db_def
        env_select_fails_def donation_env_insert_fails_def donation_env2_def donation_inputs
        donation_success_def createDonation_def toFixed2_def digit_char_def
        natToString_1001 natToString_20)

text \<open>At that input the ledger holds the event and the answer is not the duplicate acknowledgment.\<close>

theorem recorded_identifier_processed_again_witness:
  "recorded w_table ''evt_1''
   \<and> snd (handleStripeWebhook cfg_live (Some ''t=1,v1=ab'') env_select_fails w_table) \<noteq> duplicate_ack
   \<and> orders_created (fst (handleStripeWebhook cfg_live (Some ''t=1,v1=ab'') env_select_fails w_table)) = 1"
  using recorded_identifier_processed_again by (simp add: duplicate_ack_def)

end
